theory Spec2Isabelle
  imports Complex_Main "HOL-Library.Word"
begin

section \<open>Multimodal chat server: routing and multi-turn generation state\<close>

text \<open>
  A shallow embedding of \<^verbatim>\<open>src/server/app.py\<close>. The module keeps one dictionary
  \<^verbatim>\<open>SESSIONS\<close> and talks to the outside through the OpenAI client, the clock, the uuid
  generator and the file system. Here the dictionary is passed in and returned, every
  outside answer is a field of a \<open>world\<close> record, every exception is a value, and each
  function also returns the list of outside calls it made, in order.

  A Python \<^verbatim>\<open>str\<close> is a \<open>string\<close> whose characters stand for code points below 256;
  \<^verbatim>\<open>bytes\<close> is a \<open>string\<close> too.
\<close>

subsection \<open>Python helpers\<close>

type_synonym bytes = string

text \<open>Truthiness of an \<^verbatim>\<open>Optional[str]\<close>: \<^verbatim>\<open>None\<close> and \<^verbatim>\<open>""\<close> are false.\<close>

definition truthy :: "string option \<Rightarrow> bool" where
  "truthy x = (case x of None \<Rightarrow> False | Some s \<Rightarrow> s \<noteq> [])"

text \<open>\<^verbatim>\<open>x or d\<close> for an optional string \<open>x\<close> and a string \<open>d\<close>.\<close>

definition py_or :: "string option \<Rightarrow> string \<Rightarrow> string" where
  "py_or x d = (case x of None \<Rightarrow> d | Some s \<Rightarrow> if s = [] then d else s)"

text \<open>\<^verbatim>\<open>x or None\<close>: an empty string becomes \<^verbatim>\<open>None\<close>.\<close>

definition py_or_none :: "string option \<Rightarrow> string option" where
  "py_or_none x = (if truthy x then x else None)"

text \<open>\<^verbatim>\<open>str.isspace\<close> on one code point below 256, and \<^verbatim>\<open>str.strip()\<close>.\<close>

definition py_isspace :: "char \<Rightarrow> bool" where
  "py_isspace ch =
     (let n = (of_char ch :: nat)
      in (9 \<le> n \<and> n \<le> 13) \<or> (28 \<le> n \<and> n \<le> 32) \<or> n = 133 \<or> n = 160)"

definition strip :: "string \<Rightarrow> string" where
  "strip s = rev (dropWhile py_isspace (rev (dropWhile py_isspace s)))"

text \<open>\<^verbatim>\<open>sep.join(parts)\<close>.\<close>

fun join :: "string \<Rightarrow> string list \<Rightarrow> string" where
  "join sep [] = []"
| "join sep [x] = x"
| "join sep (x # y # ys) = x @ sep @ join sep (y # ys)"

text \<open>The slice \<^verbatim>\<open>xs[i:]\<close>: a negative start counts from the end and is clamped at 0.\<close>

definition py_slice_from :: "int \<Rightarrow> 'a list \<Rightarrow> 'a list" where
  "py_slice_from i xs =
     (let n = int (length xs);
          start = (if i < 0 then max 0 (n + i) else min i n)
      in drop (nat start) xs)"

text \<open>
  A \<^verbatim>\<open>uuid.UUID\<close> is a 128-bit number. \<^verbatim>\<open>.hex\<close> is its 32 lower-case hexadecimal
  digits, \<^verbatim>\<open>str()\<close> groups them 8-4-4-4-12.
\<close>

definition hex_digit :: "nat \<Rightarrow> char" where
  "hex_digit d = ''0123456789abcdef'' ! (d mod 16)"

definition uuid_hex :: "128 word \<Rightarrow> string" where
  "uuid_hex u = map (\<lambda>i. hex_digit (unat (drop_bit (4 * (31 - i)) u))) [0..<32]"

definition uuid_str :: "128 word \<Rightarrow> string" where
  "uuid_str u =
     (let h = uuid_hex u
      in take 8 h @ ''-'' @ take 4 (drop 8 h) @ ''-'' @ take 4 (drop 12 h) @ ''-'' @
         take 4 (drop 16 h) @ ''-'' @ drop 20 h)"

text \<open>\<^verbatim>\<open>os.path.join(a, b)\<close> for a relative \<open>b\<close>.\<close>

definition path_join :: "string \<Rightarrow> string \<Rightarrow> string" where
  "path_join a b = (if a = [] \<or> last a = CHR ''/'' then a @ b else a @ ''/'' @ b)"

subsection \<open>Models\<close>

datatype Intent = Text | Image | Video

record message =
  role :: string
  content :: string

record RouteDecision =
  rd_intent :: Intent
  rd_prompt :: string
  rd_seconds :: "string option"
  rd_size :: "string option"
  rd_style :: "string option"

record ChatRequest =
  req_session_id :: "string option"
  req_text :: string

record ChatResponse =
  session_id :: string
  intent :: Intent
  content_type :: string
  text_out :: "string option"
  asset_url :: "string option"
  debug :: "(string \<times> string option) list"

record SessionState =
  messages :: "message list"
  last_intent :: "Intent option"
  last_image_response_id :: "string option"
  last_video_id :: "string option"
  last_video_completed :: bool

text \<open>\<^verbatim>\<open>SessionState()\<close>: every field at its default.\<close>

definition SessionState_init :: SessionState where
  "SessionState_init =
     \<lparr>messages = [], last_intent = None, last_image_response_id = None,
      last_video_id = None, last_video_completed = False\<rparr>"

type_synonym SESSIONS = "string \<rightharpoonup> SessionState"

subsection \<open>Exceptions\<close>

text \<open>
  \<open>HTTPException status detail\<close> is FastAPI's; \<open>Exception msg\<close> is any other
  exception, with \<open>msg\<close> what \<^verbatim>\<open>str(e)\<close> gives.
\<close>

datatype exn = HTTPException nat string | Exception string

subsection \<open>The outside world\<close>

text \<open>
  An item of \<^verbatim>\<open>resp.output\<close> is a typed object with attributes \<^verbatim>\<open>type\<close> and
  \<^verbatim>\<open>result\<close> (either may be missing) or a dictionary.
\<close>

datatype output_item =
  Obj "string option" "string option"
| Dict "(string \<times> string) list"

record Response =
  resp_id :: string
  resp_output :: "output_item list"

record VideoJob =
  job_id :: string
  status :: "string option"

text \<open>The calls a turn makes to the outside, as the trace records them.\<close>

datatype call =
  ResponsesParse string "message list"
| ResponsesCreate string "message list"
| ResponsesCreateImage string string "string option"
| VideosRemix string string
| VideosCreate string string string string
| VideosRetrieve string
| VideosDownloadContent string
| FileWrite string bytes

text \<open>The module-level configuration, read from the process environment.\<close>

record config =
  ROUTER_MODEL :: string
  TEXT_MODEL :: string
  VIDEO_MODEL :: string
  VIDEO_SECONDS :: string
  VIDEO_SIZE :: string
  VIDEO_POLL_SECONDS :: real
  VIDEO_TIMEOUT_SECONDS :: real
  OUTPUT_DIR :: string

text \<open>
  What the outside answers during one turn. \<open>time_time n\<close> is the \<open>n\<close>-th reading of the
  clock and \<open>videos_retrieve n\<close> the answer to the \<open>n\<close>-th status request of a polling
  run (both counted from 0); \<open>write_file\<close> returns the exception of a failed write.
  \<open>uuid4_session\<close> is the uuid drawn by session resolution and \<open>uuid4_file\<close> the one drawn
  by \<^verbatim>\<open>save_bytes\<close>. Times are real numbers of seconds: the rounding of the one float
  addition that computes the deadline is not modelled.
\<close>

record world =
  uuid4_session :: "128 word"
  uuid4_file :: "128 word"
  responses_parse :: "string \<Rightarrow> message list \<Rightarrow> exn + RouteDecision option"
  responses_create :: "string \<Rightarrow> message list \<Rightarrow> exn + string option"
  responses_create_image :: "string \<Rightarrow> string \<Rightarrow> string option \<Rightarrow> exn + Response"
  videos_remix :: "string \<Rightarrow> string \<Rightarrow> exn + VideoJob"
  videos_create :: "string \<Rightarrow> string \<Rightarrow> string \<Rightarrow> string \<Rightarrow> exn + VideoJob"
  videos_retrieve :: "nat \<Rightarrow> string \<Rightarrow> exn + VideoJob"
  videos_download_content :: "string \<Rightarrow> exn + bytes"
  time_time :: "nat \<Rightarrow> real"
  b64decode :: "string \<Rightarrow> exn + bytes"
  write_file :: "string \<Rightarrow> bytes \<Rightarrow> exn option"

subsection \<open>Session resolution\<close>

text \<open>
  \<^verbatim>\<open>get_or_create_session\<close>. The Python returns the id and a reference to the stored
  object; here the stored value and the updated dictionary are returned, and the caller
  writes the session back under the id after mutating it.
\<close>

definition get_or_create_session ::
  "world \<Rightarrow> string option \<Rightarrow> SESSIONS \<Rightarrow> string \<times> SessionState \<times> SESSIONS" where
  "get_or_create_session w sid_opt S =
     (let create = (\<lambda>sid. (sid, SessionState_init, S(sid \<mapsto> SessionState_init)))
      in case sid_opt of
           None \<Rightarrow> create (uuid_str (uuid4_session w))
         | Some k \<Rightarrow>
             if k = [] then create (uuid_str (uuid4_session w))
             else (case S k of Some s \<Rightarrow> (k, s, S) | None \<Rightarrow> create k))"

subsection \<open>Routing\<close>

definition system_prompt :: string where
  "system_prompt =
     ''You are an intent router for a multimodal assistant.\<newline>'' @
     ''Decide whether the user wants TEXT, IMAGE (art), or VIDEO output.\<newline>'' @
     ''Return a RouteDecision with:\<newline>'' @
     ''- intent: one of text|image|video\<newline>'' @
     ''- prompt: a clean standalone prompt for the generator\<newline>'' @
     ''- seconds, size only if intent=video\<newline>'' @
     ''- style only if intent=image and it helps\<newline>'' @
     ''Rules:\<newline>'' @
     ''- If the user asks to 'draw', 'generate image', 'logo', 'poster', 'art', pick image.\<newline>'' @
     ''- If the user asks for 'video', 'animation', 'clip', 'Sora', pick video.\<newline>'' @
     ''- Otherwise pick text.\<newline>'' @
     ''- If the user is refining the previous output (e.g. 'make it more realistic'), keep the same intent as context suggests.\<newline>''"

text \<open>\<^verbatim>\<open>last_few\<close> and \<^verbatim>\<open>convo\<close> of \<^verbatim>\<open>route_intent\<close>.\<close>

definition last_few :: "SessionState \<Rightarrow> message list" where
  "last_few session = py_slice_from (- 6) (messages session)"

definition convo :: "SessionState \<Rightarrow> string" where
  "convo session =
     (if last_few session \<noteq> []
      then join ''\<newline>'' (map (\<lambda>m. role m @ '': '' @ content m) (last_few session))
      else ''(none)'')"

definition router_input :: "string \<Rightarrow> SessionState \<Rightarrow> message list" where
  "router_input user_text session =
     [\<lparr>role = ''system'', content = system_prompt\<rparr>,
      \<lparr>role = ''user'',
       content = ''Recent conversation:\<newline>'' @ convo session @
                 ''\<newline>\<newline>User message:\<newline>'' @ user_text\<rparr>]"

text \<open>
  \<^verbatim>\<open>route_intent\<close>: one structured-output call. \<^verbatim>\<open>resp.output_parsed\<close> is optional, so
  the result is an optional decision.
\<close>

definition route_intent ::
  "config \<Rightarrow> world \<Rightarrow> string \<Rightarrow> SessionState \<Rightarrow> call list \<times> (exn + RouteDecision option)" where
  "route_intent c w user_text session =
     ([ResponsesParse (ROUTER_MODEL c) (router_input user_text session)],
      responses_parse w (ROUTER_MODEL c) (router_input user_text session))"

subsection \<open>Generators\<close>

text \<open>\<^verbatim>\<open>save_bytes\<close>: a file named by a fresh uuid, and the URL it is served at.\<close>

definition save_bytes :: "config \<Rightarrow> world \<Rightarrow> string \<Rightarrow> bytes \<Rightarrow> call list \<times> (exn + string)" where
  "save_bytes c w ext data =
     (let fname = uuid_hex (uuid4_file w) @ ''.'' @ ext;
          path = path_join (OUTPUT_DIR c) fname
      in ([FileWrite path data],
          case write_file w path data of
            Some e \<Rightarrow> Inl e
          | None \<Rightarrow> Inr (''/outputs/'' @ fname)))"

text \<open>\<^verbatim>\<open>generate_text\<close>: the prompt joins the history, which is sent whole.\<close>

definition generate_text ::
  "config \<Rightarrow> world \<Rightarrow> SessionState \<Rightarrow> string \<Rightarrow> SessionState \<times> call list \<times> (exn + string)" where
  "generate_text c w session prompt =
     (let session1 = session\<lparr>messages := messages session @ [\<lparr>role = ''user'', content = prompt\<rparr>]\<rparr>;
          calls = [ResponsesCreate (TEXT_MODEL c) (messages session1)]
      in case responses_create w (TEXT_MODEL c) (messages session1) of
           Inl e \<Rightarrow> (session1, calls, Inl e)
         | Inr output_text \<Rightarrow>
             (let text = py_or output_text []
              in (session1\<lparr>messages := messages session1 @ [\<lparr>role = ''assistant'', content = text\<rparr>]\<rparr>,
                  calls, Inr text)))"

text \<open>
  The attribute-or-key reads of \<^verbatim>\<open>generate_image\<close>'s loop over \<^verbatim>\<open>resp.output\<close>, and
  the loop itself: it stops at the first item whose type is \<^verbatim>\<open>image_generation_call\<close>.
\<close>

fun item_type :: "output_item \<Rightarrow> string option" where
  "item_type (Obj t r) = py_or_none t"
| "item_type (Dict d) = map_of d ''type''"

fun item_result :: "output_item \<Rightarrow> string option" where
  "item_result (Obj t r) = py_or_none r"
| "item_result (Dict d) = map_of d ''result''"

fun find_image_b64 :: "output_item list \<Rightarrow> string option" where
  "find_image_b64 [] = None"
| "find_image_b64 (item # items) =
     (if item_type item = Some ''image_generation_call'' then item_result item
      else find_image_b64 items)"

text \<open>
  \<^verbatim>\<open>generate_image\<close>. The response id is stored in the session right after the call
  returns, before the output is searched for an image.
\<close>

definition generate_image ::
  "config \<Rightarrow> world \<Rightarrow> SessionState \<Rightarrow> string \<Rightarrow> string option
     \<Rightarrow> SessionState \<times> call list \<times> (exn + string)" where
  "generate_image c w session prompt style =
     (let input_prompt =
            (case style of None \<Rightarrow> prompt
             | Some st \<Rightarrow> if st = [] then prompt else prompt @ ''\<newline>\<newline>Style: '' @ st);
          previous_response_id =
            (if last_intent session = Some Image \<and> truthy (last_image_response_id session)
             then last_image_response_id session else None);
          calls = [ResponsesCreateImage (TEXT_MODEL c) input_prompt previous_response_id]
      in case responses_create_image w (TEXT_MODEL c) input_prompt previous_response_id of
           Inl e \<Rightarrow> (session, calls, Inl e)
         | Inr resp \<Rightarrow>
             (let session1 = session\<lparr>last_image_response_id := Some (resp_id resp)\<rparr>;
                  image_b64 = find_image_b64 (resp_output resp)
              in if \<not> truthy image_b64
                 then (session1, calls,
                       Inl (HTTPException 500 ''No image generated in response output.''))
                 else (case b64decode w (py_or image_b64 []) of
                         Inl e \<Rightarrow> (session1, calls, Inl e)
                       | Inr img_bytes \<Rightarrow>
                           (case save_bytes c w ''png'' img_bytes of
                              (calls2, r) \<Rightarrow> (session1, calls @ calls2, r)))))"

subsection \<open>Video jobs\<close>

text \<open>
  The loop of \<^verbatim>\<open>poll_video_until_done\<close>, at its \<open>k\<close>-th round, with \<open>poll_seconds\<close> the
  value of \<^verbatim>\<open>VIDEO_POLL_SECONDS\<close>. Reading 0 of the clock fixed the deadline, so round
  \<open>k\<close> compares reading \<open>k + 1\<close>. \<^verbatim>\<open>time.sleep\<close> raises \<^verbatim>\<open>ValueError\<close> on a negative
  length. Nothing bounds the number of rounds when the
  clock does not advance, so the loop is a partial function: \<open>None\<close> is a run that never
  returns.
\<close>

partial_function (option) poll_loop ::
  "real \<Rightarrow> world \<Rightarrow> string \<Rightarrow> real \<Rightarrow> nat \<Rightarrow> call list \<Rightarrow> (call list \<times> (exn + VideoJob)) option" where
  "poll_loop poll_seconds w video_id deadline k calls =
     (if time_time w (Suc k) < deadline
      then (case videos_retrieve w k video_id of
              Inl e \<Rightarrow> Some (calls @ [VideosRetrieve video_id], Inl e)
            | Inr job \<Rightarrow>
                if status job = Some ''completed''
                then Some (calls @ [VideosRetrieve video_id], Inr job)
                else if status job = Some ''failed''
                then Some (calls @ [VideosRetrieve video_id],
                           Inl (HTTPException 500 (''Video job failed: '' @ video_id)))
                else if poll_seconds < 0
                then Some (calls @ [VideosRetrieve video_id],
                           Inl (Exception ''sleep length must be non-negative''))
                else poll_loop poll_seconds w video_id deadline (Suc k)
                       (calls @ [VideosRetrieve video_id]))
      else Some (calls, Inl (HTTPException 504 (''Video generation timed out: '' @ video_id))))"

definition poll_video_until_done ::
  "config \<Rightarrow> world \<Rightarrow> string \<Rightarrow> (call list \<times> (exn + VideoJob)) option" where
  "poll_video_until_done c w video_id =
     poll_loop (VIDEO_POLL_SECONDS c) w video_id (time_time w 0 + VIDEO_TIMEOUT_SECONDS c) 0 []"

definition download_video_mp4 :: "config \<Rightarrow> world \<Rightarrow> string \<Rightarrow> call list \<times> (exn + string)" where
  "download_video_mp4 c w video_id =
     (case videos_download_content w video_id of
        Inl e \<Rightarrow> ([VideosDownloadContent video_id], Inl e)
      | Inr video_bytes \<Rightarrow>
          (case save_bytes c w ''mp4'' video_bytes of
             (calls2, r) \<Rightarrow> (VideosDownloadContent video_id # calls2, r)))"

text \<open>
  The first half of \<^verbatim>\<open>generate_video\<close>, up to the two assignments that follow the
  create or remix call: the session it returns is the one polling starts from. In the
  remix branch \<open>last_video_id\<close> is truthy, so \<open>py_or (last_video_id session) []\<close> is the
  recorded id.
\<close>

definition video_submit ::
  "config \<Rightarrow> world \<Rightarrow> SessionState \<Rightarrow> string \<Rightarrow> string option \<Rightarrow> string option
     \<Rightarrow> SessionState \<times> call list \<times> (exn + VideoJob)" where
  "video_submit c w session prompt seconds size_opt =
     (let use_seconds = py_or seconds (VIDEO_SECONDS c);
          use_size = py_or size_opt (VIDEO_SIZE c);
          (request, answer) =
            (if last_intent session = Some Video \<and> truthy (last_video_id session)
                \<and> last_video_completed session
             then (VideosRemix (py_or (last_video_id session) []) prompt,
                   videos_remix w (py_or (last_video_id session) []) prompt)
             else (VideosCreate prompt (VIDEO_MODEL c) use_seconds use_size,
                   videos_create w prompt (VIDEO_MODEL c) use_seconds use_size))
      in case answer of
           Inl e \<Rightarrow> (session, [request], Inl e)
         | Inr job \<Rightarrow>
             (session\<lparr>last_video_id := Some (job_id job), last_video_completed := False\<rparr>,
              [request], Inr job))"

text \<open>\<^verbatim>\<open>generate_video\<close>: submit, poll, mark completed, download.\<close>

definition generate_video ::
  "config \<Rightarrow> world \<Rightarrow> SessionState \<Rightarrow> string \<Rightarrow> string option \<Rightarrow> string option
     \<Rightarrow> (SessionState \<times> call list \<times> (exn + string)) option" where
  "generate_video c w session prompt seconds size_opt =
     (case video_submit c w session prompt seconds size_opt of
        (session1, calls1, Inl e) \<Rightarrow> Some (session1, calls1, Inl e)
      | (session1, calls1, Inr job) \<Rightarrow>
          (case poll_video_until_done c w (job_id job) of
             None \<Rightarrow> None
           | Some (calls2, Inl e) \<Rightarrow> Some (session1, calls1 @ calls2, Inl e)
           | Some (calls2, Inr done) \<Rightarrow>
               (case download_video_mp4 c w (job_id job) of
                  (calls3, r) \<Rightarrow>
                    Some (session1\<lparr>last_video_completed := True\<rparr>, calls1 @ calls2 @ calls3, r))))"

subsection \<open>The message handler\<close>

text \<open>
  The body of the \<^verbatim>\<open>try\<close> block of \<^verbatim>\<open>handle_message\<close>. A routing answer without a
  parsed decision makes \<^verbatim>\<open>decision.intent\<close> raise \<^verbatim>\<open>AttributeError\<close>. The branch
  \<^verbatim>\<open>Unknown intent.\<close> has no input here: \<open>Intent\<close> has the three values the schema allows.
\<close>

definition none_has_no_intent :: string where
  "none_has_no_intent =
     [CHR 0x27] @ ''NoneType'' @ [CHR 0x27] @ '' object has no attribute '' @
     [CHR 0x27] @ ''intent'' @ [CHR 0x27]"

definition dispatch ::
  "config \<Rightarrow> world \<Rightarrow> string \<Rightarrow> SessionState \<Rightarrow> RouteDecision option
     \<Rightarrow> (SessionState \<times> call list \<times> (exn + ChatResponse)) option" where
  "dispatch c w sid session decision =
     (case decision of
        None \<Rightarrow> Some (session, [], Inl (Exception none_has_no_intent))
      | Some d \<Rightarrow>
          (case rd_intent d of
             Text \<Rightarrow>
               (case generate_text c w session (rd_prompt d) of
                  (session1, calls, Inl e) \<Rightarrow> Some (session1, calls, Inl e)
                | (session1, calls, Inr out_text) \<Rightarrow>
                    Some (session1\<lparr>last_intent := Some Text\<rparr>, calls,
                          Inr \<lparr>session_id = sid, intent = Text, content_type = ''text'',
                               text_out = Some out_text, asset_url = None,
                               debug = [(''routed_prompt'', Some (rd_prompt d))]\<rparr>))
           | Image \<Rightarrow>
               (case generate_image c w session (rd_prompt d) (rd_style d) of
                  (session1, calls, Inl e) \<Rightarrow> Some (session1, calls, Inl e)
                | (session1, calls, Inr url) \<Rightarrow>
                    Some (session1\<lparr>last_intent := Some Image,
                                    messages := messages session1 @
                                      [\<lparr>role = ''assistant'', content = ''[image generated] '' @ url\<rparr>]\<rparr>,
                          calls,
                          Inr \<lparr>session_id = sid, intent = Image, content_type = ''image'',
                               text_out = None, asset_url = Some url,
                               debug = [(''routed_prompt'', Some (rd_prompt d)),
                                        (''style'', rd_style d)]\<rparr>))
           | Video \<Rightarrow>
               (case generate_video c w session (rd_prompt d) (rd_seconds d) (rd_size d) of
                  None \<Rightarrow> None
                | Some (session1, calls, Inl e) \<Rightarrow> Some (session1, calls, Inl e)
                | Some (session1, calls, Inr url) \<Rightarrow>
                    Some (session1\<lparr>last_intent := Some Video,
                                    messages := messages session1 @
                                      [\<lparr>role = ''assistant'', content = ''[video generated] '' @ url\<rparr>]\<rparr>,
                          calls,
                          Inr \<lparr>session_id = sid, intent = Video, content_type = ''video'',
                               text_out = None, asset_url = Some url,
                               debug = [(''routed_prompt'', Some (rd_prompt d)),
                                        (''seconds'', rd_seconds d), (''size'', rd_size d)]\<rparr>))))"

text \<open>
  The two \<^verbatim>\<open>except\<close> clauses: an \<open>HTTPException\<close> passes, anything else becomes
  status 500 with the exception's text.
\<close>

fun reraise :: "exn \<Rightarrow> exn" where
  "reraise (HTTPException code detail) = HTTPException code detail"
| "reraise (Exception msg) = HTTPException 500 msg"

text \<open>
  \<^verbatim>\<open>handle_message\<close>. It returns the dictionary after the turn, the calls made, and the
  response or the exception that leaves the handler. The session is mutated in place in the
  Python, so whatever a failed generator changed stays in the dictionary.
\<close>

definition handle_message ::
  "config \<Rightarrow> world \<Rightarrow> ChatRequest \<Rightarrow> SESSIONS
     \<Rightarrow> (SESSIONS \<times> call list \<times> (exn + ChatResponse)) option" where
  "handle_message c w req S =
     (case get_or_create_session w (req_session_id req) S of
        (sid, session, S1) \<Rightarrow>
          (let user_text = strip (req_text req)
           in if user_text = []
              then Some (S1, [], Inl (HTTPException 400 ''Empty message.''))
              else (case route_intent c w user_text session of
                      (calls1, Inl e) \<Rightarrow> Some (S1, calls1, Inl e)
                    | (calls1, Inr decision) \<Rightarrow>
                        (let session1 = session\<lparr>messages := messages session @
                                          [\<lparr>role = ''user'', content = user_text\<rparr>]\<rparr>
                         in case dispatch c w sid session1 decision of
                              None \<Rightarrow> None
                            | Some (session2, calls2, Inl e) \<Rightarrow>
                                Some (S1(sid \<mapsto> session2), calls1 @ calls2, Inl (reraise e))
                            | Some (session2, calls2, Inr resp) \<Rightarrow>
                                Some (S1(sid \<mapsto> session2), calls1 @ calls2, Inr resp)))))"

text \<open>A sequence of turns, each with the world that answers it.\<close>

fun run_turns ::
  "config \<Rightarrow> (world \<times> ChatRequest) list \<Rightarrow> SESSIONS
     \<Rightarrow> (SESSIONS \<times> (call list \<times> (exn + ChatResponse)) list) option" where
  "run_turns c [] S = Some (S, [])"
| "run_turns c ((w, req) # turns) S =
     (case handle_message c w req S of
        None \<Rightarrow> None
      | Some (S1, calls, r) \<Rightarrow>
          (case run_turns c turns S1 of
             None \<Rightarrow> None
           | Some (S2, outs) \<Rightarrow> Some (S2, (calls, r) # outs)))"

section \<open>Vocabulary of the statements\<close>

text \<open>
  Round \<open>j\<close> of a polling run is followed by another round: the deadline has not
  passed, the job answered with a status that is neither \<^verbatim>\<open>completed\<close> nor
  \<^verbatim>\<open>failed\<close>, and the sleep does not raise.
\<close>

definition pending :: "real \<Rightarrow> world \<Rightarrow> string \<Rightarrow> real \<Rightarrow> nat \<Rightarrow> bool" where
  "pending poll_seconds w video_id deadline j =
     (time_time w (Suc j) < deadline \<and> \<not> poll_seconds < 0 \<and>
      (case videos_retrieve w j video_id of
         Inl e \<Rightarrow> False
       | Inr job \<Rightarrow> status job \<noteq> Some ''completed'' \<and> status job \<noteq> Some ''failed''))"

text \<open>The calls that start a video job, and the call that asks for an image.\<close>

fun is_submit :: "call \<Rightarrow> bool" where
  "is_submit (VideosRemix video_id prompt) = True"
| "is_submit (VideosCreate prompt model seconds size_opt) = True"
| "is_submit other = False"

fun is_image_request :: "call \<Rightarrow> bool" where
  "is_image_request (ResponsesCreateImage model input previous_response_id) = True"
| "is_image_request other = False"

fun is_router_call :: "call \<Rightarrow> bool" where
  "is_router_call (ResponsesParse model input) = True"
| "is_router_call other = False"

text \<open>
  The routing context as the specification words it: the last six messages, all of them
  when there are six or fewer, and a placeholder when there is none.
\<close>

definition last_six :: "message list \<Rightarrow> message list" where
  "last_six ms = rev (take 6 (rev ms))"

definition context_window :: "message list \<Rightarrow> string" where
  "context_window ms =
     (if ms = [] then ''(none)''
      else join ''\<newline>'' (map (\<lambda>m. role m @ '': '' @ content m) (last_six ms)))"

text \<open>The three messages one successful text turn leaves in the history.\<close>

definition text_turn_messages :: "string \<Rightarrow> string \<Rightarrow> string \<Rightarrow> message list" where
  "text_turn_messages raw prompt reply =
     [\<lparr>role = ''user'', content = raw\<rparr>, \<lparr>role = ''user'', content = prompt\<rparr>,
      \<lparr>role = ''assistant'', content = reply\<rparr>]"

text \<open>The stripped user texts of a sequence of turns, in the order submitted.\<close>

definition submitted :: "(world \<times> ChatRequest) list \<Rightarrow> string list" where
  "submitted turns = map (\<lambda>(w, req). strip (req_text req)) turns"

text \<open>A session never claims a completed video without naming a job.\<close>

definition video_flag_ok :: "SessionState \<Rightarrow> bool" where
  "video_flag_ok s = (\<not> last_video_completed s \<or> last_video_id s \<noteq> None)"

text \<open>
  The configuration with every default of the module (\<^verbatim>\<open>OUTPUT_DIR\<close> depends on where
  the file lies), and worlds for concrete runs.
\<close>

definition default_config :: config where
  "default_config =
     \<lparr>ROUTER_MODEL = ''gpt-4o-mini'', TEXT_MODEL = ''gpt-5.2'', VIDEO_MODEL = ''sora-2'',
      VIDEO_SECONDS = ''4'', VIDEO_SIZE = ''720x1280'', VIDEO_POLL_SECONDS = 2,
      VIDEO_TIMEOUT_SECONDS = 180, OUTPUT_DIR = ''server/outputs''\<rparr>"

definition offline :: world where
  "offline =
     \<lparr>uuid4_session = 0x1234, uuid4_file = 0xabcd,
      responses_parse = (\<lambda>model input. Inl (Exception ''offline'')),
      responses_create = (\<lambda>model input. Inl (Exception ''offline'')),
      responses_create_image = (\<lambda>model input prev. Inl (Exception ''offline'')),
      videos_remix = (\<lambda>video_id prompt. Inl (Exception ''offline'')),
      videos_create = (\<lambda>prompt model seconds size_opt. Inl (Exception ''offline'')),
      videos_retrieve = (\<lambda>n video_id. Inl (Exception ''offline'')),
      videos_download_content = (\<lambda>video_id. Inl (Exception ''offline'')),
      time_time = (\<lambda>n. 1000 + 2 * real n),
      b64decode = (\<lambda>s. Inr s),
      write_file = (\<lambda>path data. None)\<rparr>"

definition text_world :: world where
  "text_world = offline
     \<lparr>responses_parse := (\<lambda>model input. Inr (Some \<lparr>rd_intent = Text,
          rd_prompt = ''Write a haiku about rain.'', rd_seconds = None, rd_size = None,
          rd_style = None\<rparr>)),
      responses_create := (\<lambda>model input. Inr (Some ''Rain taps the window''))\<rparr>"

definition text_down_world :: world where
  "text_down_world = text_world
     \<lparr>responses_create := (\<lambda>model input. Inl (Exception ''offline''))\<rparr>"

definition image_world :: world where
  "image_world = offline
     \<lparr>responses_parse := (\<lambda>model input. Inr (Some \<lparr>rd_intent = Image,
          rd_prompt = ''A red fox.'', rd_seconds = None, rd_size = None, rd_style = None\<rparr>)),
      responses_create_image := (\<lambda>model input prev. Inr \<lparr>resp_id = ''resp_1'',
          resp_output = [Obj (Some ''image_generation_call'') (Some ''cG5n'')]\<rparr>)\<rparr>"

definition image_empty_world :: world where
  "image_empty_world = image_world
     \<lparr>responses_create_image := (\<lambda>model input prev. Inr \<lparr>resp_id = ''resp_2'',
          resp_output = [Obj (Some ''message'') None]\<rparr>)\<rparr>"

definition video_world :: world where
  "video_world = offline
     \<lparr>responses_parse := (\<lambda>model input. Inr (Some \<lparr>rd_intent = Video,
          rd_prompt = ''A sunset clip.'', rd_seconds = Some ''8'', rd_size = None,
          rd_style = None\<rparr>)),
      videos_create := (\<lambda>prompt model seconds size_opt.
          Inr \<lparr>job_id = ''vid_1'', status = Some ''queued''\<rparr>),
      videos_remix := (\<lambda>video_id prompt. Inr \<lparr>job_id = ''vid_2'', status = Some ''queued''\<rparr>),
      videos_retrieve := (\<lambda>n video_id. Inr \<lparr>job_id = video_id,
          status = Some (if n < 2 then ''queued'' else ''completed'')\<rparr>),
      videos_download_content := (\<lambda>video_id. Inr ''mp4-bytes'')\<rparr>"

definition video_failed_world :: world where
  "video_failed_world = video_world
     \<lparr>videos_retrieve := (\<lambda>n video_id. Inr \<lparr>job_id = video_id,
          status = Some (if n < 1 then ''running'' else ''failed'')\<rparr>)\<rparr>"

definition video_slow_world :: world where
  "video_slow_world = video_world
     \<lparr>videos_retrieve := (\<lambda>n video_id. Inr \<lparr>job_id = video_id, status = Some ''queued''\<rparr>),
      time_time := (\<lambda>n. 1000 + 100 * real n)\<rparr>"

definition completed_video_session :: SessionState where
  "completed_video_session =
     \<lparr>messages = [], last_intent = Some Video, last_image_response_id = None,
      last_video_id = Some ''vid_1'', last_video_completed = True\<rparr>"

text \<open>Sessions and requests for concrete runs.\<close>

definition short_session :: SessionState where
  "short_session = SessionState_init
     \<lparr>messages := [\<lparr>role = ''user'', content = ''hi''\<rparr>,
                    \<lparr>role = ''assistant'', content = ''hello''\<rparr>]\<rparr>"

definition long_session :: SessionState where
  "long_session = SessionState_init
     \<lparr>messages := map (\<lambda>t. \<lparr>role = ''user'', content = t\<rparr>)
                       [''m1'', ''m2'', ''m3'', ''m4'', ''m5'', ''m6'', ''m7'']\<rparr>"

definition sunset_request :: ChatRequest where
  "sunset_request = \<lparr>req_session_id = Some ''s1'', req_text = '' a clip of a sunset ''\<rparr>"

definition blank_request :: ChatRequest where
  "blank_request = \<lparr>req_session_id = None, req_text = ''   ''\<rparr>"

definition blank_known_request :: ChatRequest where
  "blank_known_request = \<lparr>req_session_id = Some ''s1'', req_text = []\<rparr>"

definition haiku_request :: ChatRequest where
  "haiku_request = \<lparr>req_session_id = Some ''s1'', req_text = ''write a haiku about rain''\<rparr>"

definition again_request :: ChatRequest where
  "again_request = \<lparr>req_session_id = Some ''s1'', req_text = ''another one''\<rparr>"

definition fox_request :: ChatRequest where
  "fox_request = \<lparr>req_session_id = Some ''s1'', req_text = ''draw a red fox''\<rparr>"

definition hi_request :: ChatRequest where
  "hi_request = \<lparr>req_session_id = Some ''s1'', req_text = ''say hi''\<rparr>"

definition brighter_request :: ChatRequest where
  "brighter_request = \<lparr>req_session_id = Some ''s1'', req_text = ''make it brighter''\<rparr>"

definition image_session :: SessionState where
  "image_session = SessionState_init
     \<lparr>last_intent := Some Image, last_image_response_id := Some ''resp_1''\<rparr>"

section \<open>Properties\<close>

lemmas world_defs = default_config_def offline_def text_world_def text_down_world_def
  image_world_def image_empty_world_def video_world_def video_failed_world_def
  video_slow_world_def

subsection \<open>Polling\<close>

lemma poll_loop_step:
  assumes "pending ps w vid d k"
  shows "poll_loop ps w vid d k calls = poll_loop ps w vid d (Suc k) (calls @ [VideosRetrieve vid])"
  using assms by (subst poll_loop.simps) (auto simp: pending_def split: sum.splits)

lemma poll_loop_pending:
  "(\<And>j. j < n \<Longrightarrow> pending ps w vid d (k + j)) \<Longrightarrow>
   poll_loop ps w vid d k calls =
   poll_loop ps w vid d (k + n) (calls @ replicate n (VideosRetrieve vid))"
proof (induction n arbitrary: k calls)
  case 0
  show ?case by simp
next
  case (Suc n)
  have "pending ps w vid d k"
    using Suc.prems [of 0] by simp
  then have "poll_loop ps w vid d k calls =
      poll_loop ps w vid d (Suc k) (calls @ [VideosRetrieve vid])"
    by (rule poll_loop_step)
  also have "\<dots> = poll_loop ps w vid d (Suc k + n)
      ((calls @ [VideosRetrieve vid]) @ replicate n (VideosRetrieve vid))"
  proof (rule Suc.IH)
    fix j assume "j < n"
    then show "pending ps w vid d (Suc k + j)"
      using Suc.prems [of "Suc j"] by simp
  qed
  finally show ?case
    by (simp add: replicate_app_Cons_same)
qed

lemma poll_loop_result_aux:
  assumes "poll_loop ps w vid d k calls = Some y"
  shows "(\<exists>n. fst y = calls @ replicate n (VideosRetrieve vid)) \<and>
         (\<forall>job. snd y = Inr job \<longrightarrow>
            status job = Some ''completed'' \<and>
            (\<exists>j. videos_retrieve w j vid = Inr job \<and> time_time w (Suc j) < d))"
  using assms
proof (rule poll_loop.raw_induct [rotated 1, where P = "\<lambda>ps w vid d k calls y.
         (\<exists>n. fst y = calls @ replicate n (VideosRetrieve vid)) \<and>
         (\<forall>job. snd y = Inr job \<longrightarrow>
            status job = Some ''completed'' \<and>
            (\<exists>j. videos_retrieve w j vid = Inr job \<and> time_time w (Suc j) < d))"])
  fix f :: "real \<Rightarrow> world \<Rightarrow> string \<Rightarrow> real \<Rightarrow> nat \<Rightarrow> call list \<Rightarrow> (call list \<times> (exn + VideoJob)) option"
  fix ps w vid d k calls y
  assume IH: "\<And>ps w vid d k calls y. f ps w vid d k calls = Some y \<Longrightarrow>
         (\<exists>n. fst y = calls @ replicate n (VideosRetrieve vid)) \<and>
         (\<forall>job. snd y = Inr job \<longrightarrow>
            status job = Some ''completed'' \<and>
            (\<exists>j. videos_retrieve w j vid = Inr job \<and> time_time w (Suc j) < d))"
  assume body: "(if time_time w (Suc k) < d
      then (case videos_retrieve w k vid of
              Inl e \<Rightarrow> Some (calls @ [VideosRetrieve vid], Inl e)
            | Inr job \<Rightarrow>
                if status job = Some ''completed''
                then Some (calls @ [VideosRetrieve vid], Inr job)
                else if status job = Some ''failed''
                then Some (calls @ [VideosRetrieve vid],
                           Inl (HTTPException 500 (''Video job failed: '' @ vid)))
                else if ps < 0
                then Some (calls @ [VideosRetrieve vid],
                           Inl (Exception ''sleep length must be non-negative''))
                else f ps w vid d (Suc k) (calls @ [VideosRetrieve vid]))
      else Some (calls, Inl (HTTPException 504 (''Video generation timed out: '' @ vid)))) = Some y"
  show "(\<exists>n. fst y = calls @ replicate n (VideosRetrieve vid)) \<and>
         (\<forall>job. snd y = Inr job \<longrightarrow>
            status job = Some ''completed'' \<and>
            (\<exists>j. videos_retrieve w j vid = Inr job \<and> time_time w (Suc j) < d))"
  proof (cases "time_time w (Suc k) < d")
    case False
    with body have "y = (calls, Inl (HTTPException 504 (''Video generation timed out: '' @ vid)))"
      by simp
    then show ?thesis
      by (auto intro: exI [of _ 0])
  next
    case True
    note in_time = this
    show ?thesis
    proof (cases "videos_retrieve w k vid")
      case (Inl e)
      with body in_time have "y = (calls @ [VideosRetrieve vid], Inl e)"
        by simp
      then show ?thesis
        by (auto intro: exI [of _ 1])
    next
      case (Inr job)
      show ?thesis
      proof (cases "status job = Some ''completed'' \<or> status job = Some ''failed'' \<or> ps < 0")
        case True
        with body in_time Inr show ?thesis
          by (auto intro: exI [of _ 1] split: if_splits)
      next
        case False
        with body in_time Inr
        have rec: "f ps w vid d (Suc k) (calls @ [VideosRetrieve vid]) = Some y"
          by simp
        from IH [OF rec] obtain n where
          n: "fst y = (calls @ [VideosRetrieve vid]) @ replicate n (VideosRetrieve vid)"
          and j: "\<forall>job. snd y = Inr job \<longrightarrow> status job = Some ''completed'' \<and>
            (\<exists>j. videos_retrieve w j vid = Inr job \<and> time_time w (Suc j) < d)"
          by blast
        from n have "fst y = calls @ replicate (Suc n) (VideosRetrieve vid)"
          by simp
        with j show ?thesis by blast
      qed
    qed
  qed
qed

lemma poll_loop_result:
  assumes "poll_loop ps w vid d k calls = Some (calls', r)"
  shows "(\<exists>n. calls' = calls @ replicate n (VideosRetrieve vid)) \<and>
         (\<forall>job. r = Inr job \<longrightarrow>
            status job = Some ''completed'' \<and>
            (\<exists>j. videos_retrieve w j vid = Inr job \<and> time_time w (Suc j) < d))"
  using poll_loop_result_aux [OF assms] by simp

text \<open>
  Claim C7. Let the first \<open>k\<close> rounds of a polling run all be followed by another
  round. If round \<open>k\<close> is within the deadline and observes \<^verbatim>\<open>completed\<close>, the run
  returns that job; if it observes \<^verbatim>\<open>failed\<close>, the run raises status 500 with the job
  id in its detail; if the deadline has passed at round \<open>k\<close>, the run raises status 504.
  The two exceptions differ.
\<close>

theorem poll_outcomes:
  assumes "\<forall>j<k. pending (VIDEO_POLL_SECONDS c) w video_id
             (time_time w 0 + VIDEO_TIMEOUT_SECONDS c) j"
  shows "(time_time w (Suc k) < time_time w 0 + VIDEO_TIMEOUT_SECONDS c \<and>
          videos_retrieve w k video_id = Inr job \<and> status job = Some ''completed'' \<longrightarrow>
            poll_video_until_done c w video_id =
              Some (replicate (Suc k) (VideosRetrieve video_id), Inr job)) \<and>
         (time_time w (Suc k) < time_time w 0 + VIDEO_TIMEOUT_SECONDS c \<and>
          videos_retrieve w k video_id = Inr job \<and> status job = Some ''failed'' \<longrightarrow>
            poll_video_until_done c w video_id =
              Some (replicate (Suc k) (VideosRetrieve video_id),
                    Inl (HTTPException 500 (''Video job failed: '' @ video_id)))) \<and>
         (\<not> time_time w (Suc k) < time_time w 0 + VIDEO_TIMEOUT_SECONDS c \<longrightarrow>
            poll_video_until_done c w video_id =
              Some (replicate k (VideosRetrieve video_id),
                    Inl (HTTPException 504 (''Video generation timed out: '' @ video_id)))) \<and>
         HTTPException 504 (''Video generation timed out: '' @ video_id) \<noteq>
         HTTPException 500 (''Video job failed: '' @ video_id)"
proof -
  let ?d = "time_time w 0 + VIDEO_TIMEOUT_SECONDS c"
  let ?ps = "VIDEO_POLL_SECONDS c"
  have reach: "poll_video_until_done c w video_id =
      poll_loop ?ps w video_id ?d k (replicate k (VideosRetrieve video_id))"
    unfolding poll_video_until_done_def
    using poll_loop_pending [of k ?ps w video_id ?d 0 "[]"] assms by simp
  have last: "replicate k (VideosRetrieve video_id) @ [VideosRetrieve video_id] =
      replicate (Suc k) (VideosRetrieve video_id)"
    by (simp add: replicate_append_same)
  show ?thesis
    unfolding reach
    by (subst poll_loop.simps, subst poll_loop.simps, subst poll_loop.simps)
       (simp add: last del: replicate_Suc)
qed

text \<open>
  Three runs under the default configuration: completed at the third status request,
  failed at the second, and timed out after one request.
\<close>

theorem poll_outcomes_witness:
  "poll_video_until_done default_config video_world ''vid_1'' =
     Some (replicate 3 (VideosRetrieve ''vid_1''),
           Inr \<lparr>job_id = ''vid_1'', status = Some ''completed''\<rparr>) \<and>
   poll_video_until_done default_config video_failed_world ''vid_1'' =
     Some (replicate 2 (VideosRetrieve ''vid_1''),
           Inl (HTTPException 500 ''Video job failed: vid_1'')) \<and>
   poll_video_until_done default_config video_slow_world ''vid_1'' =
     Some (replicate 1 (VideosRetrieve ''vid_1''),
           Inl (HTTPException 504 ''Video generation timed out: vid_1''))"
proof -
  have p1: "\<forall>j<2. pending (VIDEO_POLL_SECONDS default_config) video_world ''vid_1''
      (time_time video_world 0 + VIDEO_TIMEOUT_SECONDS default_config) j"
    by (simp add: pending_def world_defs)
  have p2: "\<forall>j<1. pending (VIDEO_POLL_SECONDS default_config) video_failed_world ''vid_1''
      (time_time video_failed_world 0 + VIDEO_TIMEOUT_SECONDS default_config) j"
    by (simp add: pending_def world_defs)
  have p3: "\<forall>j<1. pending (VIDEO_POLL_SECONDS default_config) video_slow_world ''vid_1''
      (time_time video_slow_world 0 + VIDEO_TIMEOUT_SECONDS default_config) j"
    by (simp add: pending_def world_defs)
  have a: "poll_video_until_done default_config video_world ''vid_1'' =
     Some (replicate 3 (VideosRetrieve ''vid_1''),
           Inr \<lparr>job_id = ''vid_1'', status = Some ''completed''\<rparr>)"
    using poll_outcomes [OF p1, of "\<lparr>job_id = ''vid_1'', status = Some ''completed''\<rparr>"]
    by (simp add: world_defs numeral_3_eq_3)
  have b: "poll_video_until_done default_config video_failed_world ''vid_1'' =
     Some (replicate 2 (VideosRetrieve ''vid_1''),
           Inl (HTTPException 500 ''Video job failed: vid_1''))"
    using poll_outcomes [OF p2, of "\<lparr>job_id = ''vid_1'', status = Some ''failed''\<rparr>"]
    by (simp add: world_defs numeral_2_eq_2)
  have c: "poll_video_until_done default_config video_slow_world ''vid_1'' =
     Some (replicate 1 (VideosRetrieve ''vid_1''),
           Inl (HTTPException 504 ''Video generation timed out: vid_1''))"
    using poll_outcomes [OF p3]
    by (simp add: world_defs)
  from a b c show ?thesis by blast
qed

subsection \<open>Video generation\<close>

lemma video_submit_calls:
  "fst (snd (video_submit c w session prompt seconds size_opt)) =
     [if last_intent session = Some Video \<and> truthy (last_video_id session) \<and>
         last_video_completed session
      then VideosRemix (py_or (last_video_id session) []) prompt
      else VideosCreate prompt (VIDEO_MODEL c) (py_or seconds (VIDEO_SECONDS c))
             (py_or size_opt (VIDEO_SIZE c))]"
  by (simp add: video_submit_def Let_def split: sum.splits)

lemma video_submit_session:
  "video_submit c w session prompt seconds size_opt = (session1, calls1, answer) \<Longrightarrow>
   session1 = (case answer of
                 Inl e \<Rightarrow> session
               | Inr job \<Rightarrow> session\<lparr>last_video_id := Some (job_id job),
                                    last_video_completed := False\<rparr>)"
  by (auto simp: video_submit_def Let_def split: sum.splits if_splits)

lemma download_video_mp4_calls:
  "filter is_submit (fst (download_video_mp4 c w video_id)) = []"
  by (simp add: download_video_mp4_def save_bytes_def Let_def split: sum.splits option.splits)

lemma poll_video_until_done_calls:
  assumes "poll_video_until_done c w video_id = Some (calls, r)"
  shows "filter is_submit calls = []"
proof -
  from assms obtain n where "calls = [] @ replicate n (VideosRetrieve video_id)"
    unfolding poll_video_until_done_def by (blast dest: poll_loop_result)
  then show ?thesis by simp
qed

lemma poll_video_until_done_completed:
  assumes "poll_video_until_done c w video_id = Some (calls, Inr done)"
  shows "status done = Some ''completed'' \<and> (\<exists>n. videos_retrieve w n video_id = Inr done)"
  using assms unfolding poll_video_until_done_def by (blast dest: poll_loop_result)

text \<open>\<^verbatim>\<open>generate_video\<close> by the answer to its create or remix call.\<close>

lemma generate_video_submit_failed:
  assumes "video_submit c w session prompt seconds size_opt = (session1, calls1, Inl e)"
  shows "generate_video c w session prompt seconds size_opt = Some (session, calls1, Inl e)"
  using assms video_submit_session [OF assms] by (simp add: generate_video_def)

lemma generate_video_submitted:
  assumes "video_submit c w session prompt seconds size_opt = (session1, calls1, Inr job)"
    and "generate_video c w session prompt seconds size_opt = Some (session', calls, r)"
  shows "(\<exists>calls2 e.
            poll_video_until_done c w (job_id job) = Some (calls2, Inl e) \<and>
            session' = session1 \<and> calls = calls1 @ calls2 \<and> r = Inl e) \<or>
         (\<exists>calls2 finished.
            poll_video_until_done c w (job_id job) = Some (calls2, Inr finished) \<and>
            session' = session1\<lparr>last_video_completed := True\<rparr> \<and>
            calls = calls1 @ calls2 @ fst (download_video_mp4 c w (job_id job)) \<and>
            r = snd (download_video_mp4 c w (job_id job)))"
  using assms
  by (auto simp: generate_video_def split: option.splits sum.splits prod.splits)

lemma generate_video_trace:
  assumes "generate_video c w session prompt seconds size_opt = Some (session', calls, r)"
  shows "\<exists>rest. calls = fst (snd (video_submit c w session prompt seconds size_opt)) @ rest \<and>
                filter is_submit rest = []"
proof -
  obtain session1 calls1 answer where
    sub: "video_submit c w session prompt seconds size_opt = (session1, calls1, answer)"
    by (cases "video_submit c w session prompt seconds size_opt") auto
  show ?thesis
  proof (cases answer)
    case (Inl e)
    with sub assms generate_video_submit_failed [of c w session prompt seconds size_opt session1 calls1 e]
    show ?thesis by simp
  next
    case (Inr job)
    with sub have sub': "video_submit c w session prompt seconds size_opt = (session1, calls1, Inr job)"
      by simp
    from generate_video_submitted [OF sub' assms] obtain calls2 where
      quiet: "filter is_submit calls2 = []" and
      shape: "calls = calls1 @ calls2 \<or>
              calls = calls1 @ calls2 @ fst (download_video_mp4 c w (job_id job))"
      by (auto dest: poll_video_until_done_calls)
    with sub' show ?thesis
      by (auto simp: download_video_mp4_calls)
  qed
qed

lemma generate_video_submits_once:
  assumes "generate_video c w session prompt seconds size_opt = Some (session', calls, r)"
  shows "take 1 calls = fst (snd (video_submit c w session prompt seconds size_opt)) \<and>
         filter is_submit calls = fst (snd (video_submit c w session prompt seconds size_opt))"
proof -
  from generate_video_trace [OF assms] obtain rest where
    "calls = fst (snd (video_submit c w session prompt seconds size_opt)) @ rest"
    "filter is_submit rest = []"
    by blast
  then show ?thesis
    by (simp add: video_submit_calls)
qed

text \<open>
  Claim C5. The call that starts the job is a remix of the recorded job exactly when the
  session's last intent is video, a (non-empty) video job id is recorded and that job is
  marked completed; in every other case it is a creation call with the prompt, the model
  and the resolved seconds and size. A run of \<^verbatim>\<open>generate_video\<close> that returns made this
  call first and no other create or remix call.
\<close>

theorem video_remix_iff_completed_video:
  assumes "video_submit c w session prompt seconds size_opt = (session1, calls1, answer)"
  shows "(last_intent session = Some Video \<and> last_video_id session = Some v \<and> v \<noteq> [] \<and>
          last_video_completed session \<longrightarrow> calls1 = [VideosRemix v prompt]) \<and>
         (\<not> (last_intent session = Some Video \<and>
              (\<exists>v. last_video_id session = Some v \<and> v \<noteq> []) \<and>
              last_video_completed session) \<longrightarrow>
            calls1 = [VideosCreate prompt (VIDEO_MODEL c) (py_or seconds (VIDEO_SECONDS c))
                        (py_or size_opt (VIDEO_SIZE c))]) \<and>
         (\<forall>session' calls r.
            generate_video c w session prompt seconds size_opt = Some (session', calls, r) \<longrightarrow>
            take 1 calls = calls1 \<and> filter is_submit calls = calls1)"
proof -
  have calls1: "calls1 = fst (snd (video_submit c w session prompt seconds size_opt))"
    using assms by simp
  have remix: "calls1 = [VideosRemix v prompt]"
    if "last_intent session = Some Video" "last_video_id session = Some v" "v \<noteq> []"
       "last_video_completed session"
    using that unfolding calls1 video_submit_calls by (simp add: truthy_def py_or_def)
  have create: "calls1 = [VideosCreate prompt (VIDEO_MODEL c) (py_or seconds (VIDEO_SECONDS c))
                        (py_or size_opt (VIDEO_SIZE c))]"
    if "\<not> (last_intent session = Some Video \<and>
              (\<exists>v. last_video_id session = Some v \<and> v \<noteq> []) \<and>
              last_video_completed session)"
    using that unfolding calls1 video_submit_calls
    by (auto simp: truthy_def split: option.splits)
  have run: "take 1 calls = calls1 \<and> filter is_submit calls = calls1"
    if "generate_video c w session prompt seconds size_opt = Some (session', calls, r)"
    for session' calls r
    using generate_video_submits_once [OF that] unfolding calls1 .
  from remix create run show ?thesis by blast
qed

subsection \<open>Session resolution\<close>

lemma length_uuid_hex: "length (uuid_hex u) = 32"
  by (simp add: uuid_hex_def)

lemma length_uuid_str: "length (uuid_str u) = 36"
  by (simp add: uuid_str_def Let_def length_uuid_hex)

lemma uuid_str_nonempty: "uuid_str u \<noteq> []"
  using length_uuid_str [of u] by auto

lemma get_or_create_session_known:
  assumes "k \<noteq> []" "S k = Some s"
  shows "get_or_create_session w (Some k) S = (k, s, S)"
  using assms by (simp add: get_or_create_session_def)

lemma get_or_create_session_new:
  assumes "\<not> (\<exists>k. sid_opt = Some k \<and> k \<noteq> [] \<and> S k \<noteq> None)"
  shows "get_or_create_session w sid_opt S =
           (py_or sid_opt (uuid_str (uuid4_session w)), SessionState_init,
            S(py_or sid_opt (uuid_str (uuid4_session w)) \<mapsto> SessionState_init))"
  using assms
  by (auto simp: get_or_create_session_def py_or_def Let_def split: option.splits)

lemma get_or_create_session_cases:
  assumes "get_or_create_session w sid_opt S = (sid, session, S1)"
  shows "(sid_opt = Some sid \<and> sid \<noteq> [] \<and> S sid = Some session \<and> S1 = S) \<or>
         (\<not> (\<exists>k. sid_opt = Some k \<and> k \<noteq> [] \<and> S k \<noteq> None) \<and>
          sid = py_or sid_opt (uuid_str (uuid4_session w)) \<and>
          session = SessionState_init \<and> S1 = S(sid \<mapsto> SessionState_init))"
proof (cases "\<exists>k. sid_opt = Some k \<and> k \<noteq> [] \<and> S k \<noteq> None")
  case True
  then obtain k s where "sid_opt = Some k" "k \<noteq> []" "S k = Some s"
    by auto
  with assms get_or_create_session_known [of k S s w] show ?thesis
    by simp
next
  case False
  with assms get_or_create_session_new [of sid_opt S w] show ?thesis
    by simp
qed

lemma get_or_create_session_stored:
  assumes "get_or_create_session w sid_opt S = (sid, session, S1)"
  shows "S1 sid = Some session \<and> sid \<noteq> []"
  using get_or_create_session_cases [OF assms]
  by (auto simp: py_or_def uuid_str_nonempty split: option.splits if_splits)

lemma get_or_create_session_others:
  assumes "get_or_create_session w sid_opt S = (sid, session, S1)" "k \<noteq> sid"
  shows "S1 k = S k"
  using get_or_create_session_cases [OF assms(1)] assms(2) by auto

subsection \<open>The handler, unfolded\<close>

lemma handle_message_unfold:
  assumes "get_or_create_session w (req_session_id req) S = (sid, session, S1)"
  shows "handle_message c w req S =
     (if strip (req_text req) = []
      then Some (S1, [], Inl (HTTPException 400 ''Empty message.''))
      else case responses_parse w (ROUTER_MODEL c)
                  (router_input (strip (req_text req)) session) of
             Inl e \<Rightarrow>
               Some (S1, [ResponsesParse (ROUTER_MODEL c)
                           (router_input (strip (req_text req)) session)], Inl e)
           | Inr decision \<Rightarrow>
               (case dispatch c w sid
                       (session\<lparr>messages := messages session @
                          [\<lparr>role = ''user'', content = strip (req_text req)\<rparr>]\<rparr>) decision of
                  None \<Rightarrow> None
                | Some (session2, calls2, r) \<Rightarrow>
                    Some (S1(sid \<mapsto> session2),
                          ResponsesParse (ROUTER_MODEL c)
                            (router_input (strip (req_text req)) session) # calls2,
                          map_sum reraise id r)))"
  by (simp add: handle_message_def route_intent_def Let_def assms
           split: sum.splits option.splits prod.splits)

lemma handle_message_dispatched:
  assumes run: "handle_message c w req S = Some (S', calls, r)"
    and res: "get_or_create_session w (req_session_id req) S = (sid, session, S1)"
    and changed: "S' \<noteq> S1 \<or> (\<exists>resp. r = Inr resp) \<or> length calls > 1"
  shows "\<exists>decision session2 calls2 r2.
           strip (req_text req) \<noteq> [] \<and>
           responses_parse w (ROUTER_MODEL c) (router_input (strip (req_text req)) session)
             = Inr decision \<and>
           dispatch c w sid
             (session\<lparr>messages := messages session @
                [\<lparr>role = ''user'', content = strip (req_text req)\<rparr>]\<rparr>) decision
             = Some (session2, calls2, r2) \<and>
           S' = S1(sid \<mapsto> session2) \<and>
           calls = ResponsesParse (ROUTER_MODEL c)
                     (router_input (strip (req_text req)) session) # calls2 \<and>
           r = map_sum reraise id r2"
  using run changed unfolding handle_message_unfold [OF res]
  by (auto split: if_splits sum.splits option.splits)

text \<open>What a turn can do to the dictionary: nothing beyond the resolved entry.\<close>

lemma handle_message_store:
  assumes run: "handle_message c w req S = Some (S', calls, r)"
    and res: "get_or_create_session w (req_session_id req) S = (sid, session, S1)"
  shows "S' = S1 \<or>
         (\<exists>decision session2 calls2 r2.
            dispatch c w sid
              (session\<lparr>messages := messages session @
                 [\<lparr>role = ''user'', content = strip (req_text req)\<rparr>]\<rparr>) decision
              = Some (session2, calls2, r2) \<and>
            S' = S1(sid \<mapsto> session2))"
  using handle_message_dispatched [OF run res] by blast

subsection \<open>What the generators change\<close>

lemma generate_text_effect:
  assumes "generate_text c w session prompt = (session', calls, r)"
  shows "calls = [ResponsesCreate (TEXT_MODEL c)
                    (messages session @ [\<lparr>role = ''user'', content = prompt\<rparr>])] \<and>
         ((\<exists>e. r = Inl e \<and>
              session' = session\<lparr>messages := messages session @
                           [\<lparr>role = ''user'', content = prompt\<rparr>]\<rparr>) \<or>
          (\<exists>reply. r = Inr reply \<and>
              session' = session\<lparr>messages := messages session @
                           [\<lparr>role = ''user'', content = prompt\<rparr>,
                            \<lparr>role = ''assistant'', content = reply\<rparr>]\<rparr>))"
  using assms
  by (auto simp: generate_text_def Let_def split: sum.splits)

lemma generate_text_frame:
  assumes "generate_text c w session prompt = (session', calls, r)"
  shows "\<exists>ms. session' = session\<lparr>messages := ms\<rparr>"
  using generate_text_effect [OF assms] by auto

lemma generate_image_effect:
  assumes "generate_image c w session prompt style = (session', calls, r)"
  shows "\<exists>input.
           take 1 calls = [ResponsesCreateImage (TEXT_MODEL c) input
             (if last_intent session = Some Image \<and> truthy (last_image_response_id session)
              then last_image_response_id session else None)] \<and>
           filter is_image_request calls = take 1 calls \<and>
           ((\<exists>e. responses_create_image w (TEXT_MODEL c) input
                   (if last_intent session = Some Image \<and>
                       truthy (last_image_response_id session)
                    then last_image_response_id session else None) = Inl e \<and>
                 session' = session \<and> r = Inl e) \<or>
            (\<exists>resp. responses_create_image w (TEXT_MODEL c) input
                   (if last_intent session = Some Image \<and>
                       truthy (last_image_response_id session)
                    then last_image_response_id session else None) = Inr resp \<and>
                 session' = session\<lparr>last_image_response_id := Some (resp_id resp)\<rparr>))"
  using assms
  by (auto simp: generate_image_def save_bytes_def Let_def
           split: sum.splits option.splits if_splits)

lemma generate_image_frame:
  assumes "generate_image c w session prompt style = (session', calls, r)"
  shows "session' = session \<or>
         (\<exists>handle. session' = session\<lparr>last_image_response_id := Some handle\<rparr>)"
  using generate_image_effect [OF assms] by auto

lemma generate_video_effect:
  assumes "generate_video c w session prompt seconds size_opt = Some (session', calls, r)"
  shows "session' = session \<or>
         (\<exists>video_id completed.
            session' = session\<lparr>last_video_id := Some video_id,
                               last_video_completed := completed\<rparr>)"
proof -
  obtain session1 calls1 answer where
    sub: "video_submit c w session prompt seconds size_opt = (session1, calls1, answer)"
    by (cases "video_submit c w session prompt seconds size_opt") auto
  show ?thesis
  proof (cases answer)
    case (Inl e)
    with sub assms generate_video_submit_failed [of c w session prompt seconds size_opt session1 calls1 e]
    show ?thesis by simp
  next
    case (Inr job)
    with sub have sub': "video_submit c w session prompt seconds size_opt = (session1, calls1, Inr job)"
      by simp
    from video_submit_session [OF sub']
    have s1: "session1 = session\<lparr>last_video_id := Some (job_id job), last_video_completed := False\<rparr>"
      by simp
    from generate_video_submitted [OF sub' assms]
    have "session' = session1 \<or> session' = session1\<lparr>last_video_completed := True\<rparr>"
      by auto
    with s1 show ?thesis by auto
  qed
qed

subsection \<open>Dispatch\<close>

lemma dispatch_text:
  assumes "rd_intent d = Text"
  shows "dispatch c w sid session (Some d) =
     (case generate_text c w session (rd_prompt d) of
        (session1, calls, Inl e) \<Rightarrow> Some (session1, calls, Inl e)
      | (session1, calls, Inr out_text) \<Rightarrow>
          Some (session1\<lparr>last_intent := Some Text\<rparr>, calls,
                Inr \<lparr>session_id = sid, intent = Text, content_type = ''text'',
                     text_out = Some out_text, asset_url = None,
                     debug = [(''routed_prompt'', Some (rd_prompt d))]\<rparr>))"
  using assms by (simp add: dispatch_def)

lemma dispatch_image:
  assumes "rd_intent d = Image"
  shows "dispatch c w sid session (Some d) =
     (case generate_image c w session (rd_prompt d) (rd_style d) of
        (session1, calls, Inl e) \<Rightarrow> Some (session1, calls, Inl e)
      | (session1, calls, Inr url) \<Rightarrow>
          Some (session1\<lparr>last_intent := Some Image,
                          messages := messages session1 @
                            [\<lparr>role = ''assistant'', content = ''[image generated] '' @ url\<rparr>]\<rparr>,
                calls,
                Inr \<lparr>session_id = sid, intent = Image, content_type = ''image'',
                     text_out = None, asset_url = Some url,
                     debug = [(''routed_prompt'', Some (rd_prompt d)),
                              (''style'', rd_style d)]\<rparr>))"
  using assms by (simp add: dispatch_def split: prod.splits sum.splits)

lemma dispatch_video:
  assumes "rd_intent d = Video"
  shows "dispatch c w sid session (Some d) =
     (case generate_video c w session (rd_prompt d) (rd_seconds d) (rd_size d) of
        None \<Rightarrow> None
      | Some (session1, calls, Inl e) \<Rightarrow> Some (session1, calls, Inl e)
      | Some (session1, calls, Inr url) \<Rightarrow>
          Some (session1\<lparr>last_intent := Some Video,
                          messages := messages session1 @
                            [\<lparr>role = ''assistant'', content = ''[video generated] '' @ url\<rparr>]\<rparr>,
                calls,
                Inr \<lparr>session_id = sid, intent = Video, content_type = ''video'',
                     text_out = None, asset_url = Some url,
                     debug = [(''routed_prompt'', Some (rd_prompt d)),
                              (''seconds'', rd_seconds d), (''size'', rd_size d)]\<rparr>))"
  using assms by (simp add: dispatch_def split: prod.splits sum.splits option.splits)

lemma dispatch_none:
  "dispatch c w sid session None = Some (session, [], Inl (Exception none_has_no_intent))"
  by (simp add: dispatch_def)

text \<open>A turn that answers has set \<open>last_intent\<close> to the intent it answers with.\<close>

lemma dispatch_success:
  assumes "dispatch c w sid session decision = Some (session2, calls2, Inr resp)"
  shows "last_intent session2 = Some (intent resp) \<and> session_id resp = sid"
proof (cases decision)
  case None
  with assms show ?thesis by (simp add: dispatch_none)
next
  case (Some d)
  show ?thesis
  proof (cases "rd_intent d")
    case Text
    with assms Some show ?thesis
      by (auto simp: dispatch_text split: prod.splits sum.splits)
  next
    case Image
    with assms Some show ?thesis
      by (auto simp: dispatch_image split: prod.splits sum.splits)
  next
    case Video
    with assms Some show ?thesis
      by (auto simp: dispatch_video split: prod.splits sum.splits option.splits)
  qed
qed

text \<open>A successful text dispatch appends the prompt and the reply.\<close>

lemma dispatch_text_success:
  assumes "dispatch c w sid session decision = Some (session2, calls2, Inr resp)"
    and "intent resp = Text"
  shows "\<exists>prompt reply.
           session2 = session\<lparr>messages := messages session @
                        [\<lparr>role = ''user'', content = prompt\<rparr>,
                         \<lparr>role = ''assistant'', content = reply\<rparr>],
                      last_intent := Some Text\<rparr> \<and>
           text_out resp = Some reply \<and>
           debug resp = [(''routed_prompt'', Some prompt)]"
proof (cases decision)
  case None
  with assms show ?thesis by (simp add: dispatch_none)
next
  case (Some d)
  show ?thesis
  proof (cases "rd_intent d")
    case Text
    obtain session1 calls r where
      gen: "generate_text c w session (rd_prompt d) = (session1, calls, r)"
      by (cases "generate_text c w session (rd_prompt d)") auto
    with assms Some Text obtain reply where
      r: "r = Inr reply" and
      s2: "session2 = session1\<lparr>last_intent := Some Text\<rparr>" and
      resp: "resp = \<lparr>session_id = sid, intent = Text, content_type = ''text'',
                     text_out = Some reply, asset_url = None,
                     debug = [(''routed_prompt'', Some (rd_prompt d))]\<rparr>"
      by (auto simp: dispatch_text split: sum.splits)
    from generate_text_effect [OF gen] r
    have "session1 = session\<lparr>messages := messages session @
            [\<lparr>role = ''user'', content = rd_prompt d\<rparr>,
             \<lparr>role = ''assistant'', content = reply\<rparr>]\<rparr>"
      by auto
    with s2 resp show ?thesis by simp
  next
    case Image
    with assms Some show ?thesis
      by (auto simp: dispatch_image split: prod.splits sum.splits)
  next
    case Video
    with assms Some show ?thesis
      by (auto simp: dispatch_video split: prod.splits sum.splits option.splits)
  qed
qed

text \<open>Only an image dispatch whose backend call answered changes the image handle.\<close>

lemma dispatch_image_handle:
  assumes "dispatch c w sid session decision = Some (session2, calls2, r2)"
    and "last_image_response_id session2 \<noteq> last_image_response_id session"
  shows "\<exists>d input prev resp.
           decision = Some d \<and> rd_intent d = Image \<and>
           take 1 calls2 = [ResponsesCreateImage (TEXT_MODEL c) input prev] \<and>
           responses_create_image w (TEXT_MODEL c) input prev = Inr resp \<and>
           last_image_response_id session2 = Some (resp_id resp)"
proof (cases decision)
  case None
  with assms show ?thesis by (simp add: dispatch_none)
next
  case (Some d)
  show ?thesis
  proof (cases "rd_intent d")
    case Text
    obtain session1 calls r where
      gen: "generate_text c w session (rd_prompt d) = (session1, calls, r)"
      by (cases "generate_text c w session (rd_prompt d)") auto
    from generate_text_frame [OF gen]
    have "last_image_response_id session1 = last_image_response_id session"
      by auto
    with assms Some Text gen show ?thesis
      by (auto simp: dispatch_text split: sum.splits)
  next
    case Image
    obtain session1 calls r where
      gen: "generate_image c w session (rd_prompt d) (rd_style d) = (session1, calls, r)"
      by (cases "generate_image c w session (rd_prompt d) (rd_style d)") auto
    from assms(1) Some Image gen
    have s2: "last_image_response_id session2 = last_image_response_id session1" and
      c2: "calls2 = calls"
      by (auto simp: dispatch_image split: sum.splits)
    from generate_image_effect [OF gen] obtain input where
      call: "take 1 calls = [ResponsesCreateImage (TEXT_MODEL c) input
             (if last_intent session = Some Image \<and> truthy (last_image_response_id session)
              then last_image_response_id session else None)]" and
      eff: "session1 = session \<or>
            (\<exists>resp. responses_create_image w (TEXT_MODEL c) input
                   (if last_intent session = Some Image \<and>
                       truthy (last_image_response_id session)
                    then last_image_response_id session else None) = Inr resp \<and>
                 session1 = session\<lparr>last_image_response_id := Some (resp_id resp)\<rparr>)"
      by blast
    from eff s2 assms(2) obtain resp where
      "responses_create_image w (TEXT_MODEL c) input
                   (if last_intent session = Some Image \<and>
                       truthy (last_image_response_id session)
                    then last_image_response_id session else None) = Inr resp"
      "last_image_response_id session2 = Some (resp_id resp)"
      by auto
    with Some Image call c2 show ?thesis
      by blast
  next
    case Video
    show ?thesis
    proof (cases "generate_video c w session (rd_prompt d) (rd_seconds d) (rd_size d)")
      case None
      with assms Some Video show ?thesis
        by (simp add: dispatch_video)
    next
      case (Some res)
      then obtain session1 calls r where
        gen: "generate_video c w session (rd_prompt d) (rd_seconds d) (rd_size d)
                = Some (session1, calls, r)"
        by (cases res) auto
      from generate_video_effect [OF gen]
      have "last_image_response_id session1 = last_image_response_id session"
        by auto
      with assms \<open>decision = Some d\<close> Video gen show ?thesis
        by (auto simp: dispatch_video split: sum.splits)
    qed
  qed
qed

text \<open>No dispatch breaks \<open>video_flag_ok\<close>.\<close>

lemma dispatch_video_flag:
  assumes "dispatch c w sid session decision = Some (session2, calls2, r2)"
    and "video_flag_ok session"
  shows "video_flag_ok session2"
proof (cases decision)
  case None
  with assms show ?thesis by (simp add: dispatch_none)
next
  case (Some d)
  show ?thesis
  proof (cases "rd_intent d")
    case Text
    obtain session1 calls r where
      gen: "generate_text c w session (rd_prompt d) = (session1, calls, r)"
      by (cases "generate_text c w session (rd_prompt d)") auto
    from generate_text_frame [OF gen] assms(2)
    have "video_flag_ok session1"
      by (auto simp: video_flag_ok_def)
    with assms(1) Some Text gen show ?thesis
      by (auto simp: dispatch_text video_flag_ok_def split: sum.splits)
  next
    case Image
    obtain session1 calls r where
      gen: "generate_image c w session (rd_prompt d) (rd_style d) = (session1, calls, r)"
      by (cases "generate_image c w session (rd_prompt d) (rd_style d)") auto
    from generate_image_frame [OF gen] assms(2)
    have "video_flag_ok session1"
      by (auto simp: video_flag_ok_def)
    with assms(1) Some Image gen show ?thesis
      by (auto simp: dispatch_image video_flag_ok_def split: sum.splits)
  next
    case Video
    show ?thesis
    proof (cases "generate_video c w session (rd_prompt d) (rd_seconds d) (rd_size d)")
      case None
      with assms Some Video show ?thesis
        by (simp add: dispatch_video)
    next
      case (Some res)
      then obtain session1 calls r where
        gen: "generate_video c w session (rd_prompt d) (rd_seconds d) (rd_size d)
                = Some (session1, calls, r)"
        by (cases res) auto
      from generate_video_effect [OF gen] assms(2)
      have "video_flag_ok session1"
        by (auto simp: video_flag_ok_def)
      with assms(1) \<open>decision = Some d\<close> Video gen show ?thesis
        by (auto simp: dispatch_video video_flag_ok_def split: sum.splits)
    qed
  qed
qed

lemma handle_message_video_flag:
  assumes run: "handle_message c w req S = Some (S', calls, r)"
    and inv: "\<And>k s. S k = Some s \<Longrightarrow> video_flag_ok s"
    and at: "S' k = Some s"
  shows "video_flag_ok s"
proof -
  obtain sid session S1 where
    res: "get_or_create_session w (req_session_id req) S = (sid, session, S1)"
    by (cases "get_or_create_session w (req_session_id req) S") auto
  have init: "video_flag_ok SessionState_init"
    by (simp add: video_flag_ok_def SessionState_init_def)
  have inv1: "video_flag_ok s'" if "S1 k' = Some s'" for k' s'
    using get_or_create_session_cases [OF res] that inv init
    by (auto split: if_splits)
  have session: "video_flag_ok session"
    using get_or_create_session_stored [OF res] inv1 by blast
  from handle_message_store [OF run res] show ?thesis
  proof
    assume "S' = S1"
    with at inv1 show ?thesis by blast
  next
    assume "\<exists>decision session2 calls2 r2.
            dispatch c w sid
              (session\<lparr>messages := messages session @
                 [\<lparr>role = ''user'', content = strip (req_text req)\<rparr>]\<rparr>) decision
              = Some (session2, calls2, r2) \<and>
            S' = S1(sid \<mapsto> session2)"
    then obtain decision session2 calls2 r2 where
      d: "dispatch c w sid
              (session\<lparr>messages := messages session @
                 [\<lparr>role = ''user'', content = strip (req_text req)\<rparr>]\<rparr>) decision
              = Some (session2, calls2, r2)" and
      S': "S' = S1(sid \<mapsto> session2)"
      by blast
    from session have "video_flag_ok (session\<lparr>messages := messages session @
                 [\<lparr>role = ''user'', content = strip (req_text req)\<rparr>]\<rparr>)"
      by (simp add: video_flag_ok_def)
    with d have "video_flag_ok session2"
      by (rule dispatch_video_flag)
    with S' at inv1 show ?thesis
      by (auto split: if_splits)
  qed
qed

lemma run_turns_video_flag:
  assumes "run_turns c turns S = Some (S', outs)"
    and "\<And>k s. S k = Some s \<Longrightarrow> video_flag_ok s"
    and "S' k = Some s"
  shows "video_flag_ok s"
  using assms
proof (induction turns arbitrary: S S' outs)
  case Nil
  then show ?case by simp
next
  case (Cons turn turns)
  obtain w req where turn: "turn = (w, req)"
    by (cases turn) auto
  from Cons.prems(1) turn obtain S1 calls r outs1 where
    first: "handle_message c w req S = Some (S1, calls, r)" and
    rest: "run_turns c turns S1 = Some (S', outs1)"
    by (auto split: option.splits prod.splits)
  have "video_flag_ok s'" if "S1 k' = Some s'" for k' s'
    using handle_message_video_flag [OF first _ that] Cons.prems(2) by blast
  with Cons.IH [OF rest _ Cons.prems(3)] show ?case
    by blast
qed

subsection \<open>Concrete values\<close>

lemma uuid_hex_file: "uuid_hex 0xabcd = ''0000000000000000000000000000abcd''"
  by (simp add: uuid_hex_def upt_rec hex_digit_def drop_bit_eq_div)

lemma uuid_str_session: "uuid_str 0x1234 = ''00000000-0000-0000-0000-000000001234''"
  by (simp add: uuid_str_def uuid_hex_def upt_rec hex_digit_def drop_bit_eq_div)

lemmas run_defs = generate_video_def video_submit_def download_video_mp4_def save_bytes_def
  poll_video_until_done_def poll_loop.simps generate_text_def generate_image_def
  py_or_def py_or_none_def truthy_def path_join_def Let_def uuid_hex_file

lemmas turn_defs = handle_message_def get_or_create_session_def route_intent_def
  router_input_def convo_def last_few_def py_slice_from_def strip_def py_isspace_def
  dispatch_def SessionState_init_def

subsection \<open>Routing context\<close>

lemma last_few_last_six: "last_few session = last_six (messages session)"
proof -
  have "nat (max 0 (int (length (messages session)) + - 6)) = length (messages session) - 6"
    by simp
  then show ?thesis
    by (simp add: last_few_def py_slice_from_def last_six_def rev_take Let_def)
qed

lemma last_six_empty: "last_six ms = [] \<longleftrightarrow> ms = []"
  by (cases ms) (auto simp: last_six_def rev_take)

lemma convo_context_window: "convo session = context_window (messages session)"
  by (simp add: convo_def context_window_def last_few_last_six last_six_empty)

text \<open>
  Claim C9. The one call \<^verbatim>\<open>route_intent\<close> makes carries, after the system prompt, a user
  message whose conversation part is built from the last six messages of the session, and
  is the placeholder \<^verbatim>\<open>(none)\<close> when there are no messages. The last six messages are a
  suffix of the history of length \<open>min 6 n\<close>; they are the whole history when it has six
  messages or fewer.
\<close>

theorem route_context_is_last_six:
  "route_intent c w user_text session =
     ([ResponsesParse (ROUTER_MODEL c)
         [\<lparr>role = ''system'', content = system_prompt\<rparr>,
          \<lparr>role = ''user'',
           content = ''Recent conversation:\<newline>'' @ context_window (messages session) @
                     ''\<newline>\<newline>User message:\<newline>'' @ user_text\<rparr>]],
      responses_parse w (ROUTER_MODEL c)
         [\<lparr>role = ''system'', content = system_prompt\<rparr>,
          \<lparr>role = ''user'',
           content = ''Recent conversation:\<newline>'' @ context_window (messages session) @
                     ''\<newline>\<newline>User message:\<newline>'' @ user_text\<rparr>]) \<and>
   length (last_six (messages session)) = min 6 (length (messages session)) \<and>
   (\<exists>older. messages session = older @ last_six (messages session)) \<and>
   (length (messages session) \<le> 6 \<longrightarrow> last_six (messages session) = messages session) \<and>
   (messages session = [] \<longrightarrow> context_window (messages session) = ''(none)'')"
proof -
  have call: "router_input user_text session =
         [\<lparr>role = ''system'', content = system_prompt\<rparr>,
          \<lparr>role = ''user'',
           content = ''Recent conversation:\<newline>'' @ context_window (messages session) @
                     ''\<newline>\<newline>User message:\<newline>'' @ user_text\<rparr>]"
    by (simp add: router_input_def convo_context_window)
  have six: "last_six (messages session) = drop (length (messages session) - 6) (messages session)"
    by (simp add: last_six_def rev_take)
  have suffix: "messages session =
      take (length (messages session) - 6) (messages session) @ last_six (messages session)"
    by (simp add: six)
  have "\<exists>older. messages session = older @ last_six (messages session)"
    using suffix by (rule exI)
  moreover have "length (last_six (messages session)) = min 6 (length (messages session))"
    by (simp add: six)
  moreover have "length (messages session) \<le> 6 \<longrightarrow> last_six (messages session) = messages session"
    by (simp add: six)
  moreover have "messages session = [] \<longrightarrow> context_window (messages session) = ''(none)''"
    by (simp add: context_window_def)
  ultimately show ?thesis
    by (simp add: route_intent_def call)
qed

text \<open>
  A session with two messages sends both; one with seven sends the second to the seventh.
\<close>

theorem route_context_is_last_six_witness:
  "fst (route_intent default_config text_world ''and now?'' short_session) =
     [ResponsesParse ''gpt-4o-mini''
        [\<lparr>role = ''system'', content = system_prompt\<rparr>,
         \<lparr>role = ''user'',
          content = ''Recent conversation:\<newline>user: hi\<newline>assistant: hello\<newline>\<newline>User message:\<newline>and now?''\<rparr>]] \<and>
   last_six (messages short_session) = messages short_session \<and>
   fst (route_intent default_config text_world ''and now?'' long_session) =
     [ResponsesParse ''gpt-4o-mini''
        [\<lparr>role = ''system'', content = system_prompt\<rparr>,
         \<lparr>role = ''user'',
          content = ''Recent conversation:\<newline>user: m2\<newline>user: m3\<newline>user: m4\<newline>user: m5\<newline>user: m6\<newline>user: m7\<newline>\<newline>User message:\<newline>and now?''\<rparr>]] \<and>
   fst (route_intent default_config text_world ''and now?'' SessionState_init) =
     [ResponsesParse ''gpt-4o-mini''
        [\<lparr>role = ''system'', content = system_prompt\<rparr>,
         \<lparr>role = ''user'',
          content = ''Recent conversation:\<newline>(none)\<newline>\<newline>User message:\<newline>and now?''\<rparr>]]"
proof -
  have short: "length (messages short_session) \<le> 6"
    by (simp add: short_session_def)
  have none: "messages SessionState_init = []"
    by (simp add: SessionState_init_def)
  note a = route_context_is_last_six [of default_config text_world "''and now?''" short_session]
  note b = route_context_is_last_six [of default_config text_world "''and now?''" long_session]
  note c = route_context_is_last_six [of default_config text_world "''and now?''" SessionState_init]
  from a short have a1: "last_six (messages short_session) = messages short_session"
    by blast
  from a a1 have a2: "fst (route_intent default_config text_world ''and now?'' short_session) =
     [ResponsesParse ''gpt-4o-mini''
        [\<lparr>role = ''system'', content = system_prompt\<rparr>,
         \<lparr>role = ''user'',
          content = ''Recent conversation:\<newline>user: hi\<newline>assistant: hello\<newline>\<newline>User message:\<newline>and now?''\<rparr>]]"
    by (simp add: context_window_def short_session_def default_config_def)
  from b have b1: "fst (route_intent default_config text_world ''and now?'' long_session) =
     [ResponsesParse ''gpt-4o-mini''
        [\<lparr>role = ''system'', content = system_prompt\<rparr>,
         \<lparr>role = ''user'',
          content = ''Recent conversation:\<newline>user: m2\<newline>user: m3\<newline>user: m4\<newline>user: m5\<newline>user: m6\<newline>user: m7\<newline>\<newline>User message:\<newline>and now?''\<rparr>]]"
    by (simp add: context_window_def last_six_def long_session_def default_config_def
          SessionState_init_def)
  from c none have c1: "fst (route_intent default_config text_world ''and now?'' SessionState_init) =
     [ResponsesParse ''gpt-4o-mini''
        [\<lparr>role = ''system'', content = system_prompt\<rparr>,
         \<lparr>role = ''user'',
          content = ''Recent conversation:\<newline>(none)\<newline>\<newline>User message:\<newline>and now?''\<rparr>]]"
    by (simp add: default_config_def)
  from a1 a2 b1 c1 show ?thesis by blast
qed


text \<open>
  A remix turn on a session whose last video completed, and a first video turn on a new
  session with the hint \<^verbatim>\<open>seconds = "8"\<close>.
\<close>

theorem video_remix_iff_completed_video_witness:
  "generate_video default_config video_world completed_video_session ''Make it night.'' None None =
     Some (completed_video_session\<lparr>last_video_id := Some ''vid_2''\<rparr>,
           [VideosRemix ''vid_1'' ''Make it night.'', VideosRetrieve ''vid_2'',
            VideosRetrieve ''vid_2'', VideosRetrieve ''vid_2'', VideosDownloadContent ''vid_2'',
            FileWrite ''server/outputs/0000000000000000000000000000abcd.mp4'' ''mp4-bytes''],
           Inr ''/outputs/0000000000000000000000000000abcd.mp4'') \<and>
   fst (snd (video_submit default_config video_world completed_video_session
               ''Make it night.'' None None)) = [VideosRemix ''vid_1'' ''Make it night.''] \<and>
   fst (snd (video_submit default_config video_world SessionState_init
               ''A sunset clip.'' (Some ''8'') None)) =
     [VideosCreate ''A sunset clip.'' ''sora-2'' ''8'' ''720x1280'']"
proof -
  obtain s1 c1 a1 where sub1:
    "video_submit default_config video_world completed_video_session
       ''Make it night.'' None None = (s1, c1, a1)"
    by (cases "video_submit default_config video_world completed_video_session
       ''Make it night.'' None None") auto
  obtain s2 c2 a2 where sub2:
    "video_submit default_config video_world SessionState_init
       ''A sunset clip.'' (Some ''8'') None = (s2, c2, a2)"
    by (cases "video_submit default_config video_world SessionState_init
       ''A sunset clip.'' (Some ''8'') None") auto
  have run: "generate_video default_config video_world completed_video_session
      ''Make it night.'' None None =
     Some (completed_video_session\<lparr>last_video_id := Some ''vid_2''\<rparr>,
           [VideosRemix ''vid_1'' ''Make it night.'', VideosRetrieve ''vid_2'',
            VideosRetrieve ''vid_2'', VideosRetrieve ''vid_2'', VideosDownloadContent ''vid_2'',
            FileWrite ''server/outputs/0000000000000000000000000000abcd.mp4'' ''mp4-bytes''],
           Inr ''/outputs/0000000000000000000000000000abcd.mp4'')"
    by (simp add: run_defs world_defs completed_video_session_def)
  from video_remix_iff_completed_video [OF sub1, of "''vid_1''"]
  have "c1 = [VideosRemix ''vid_1'' ''Make it night.'']"
    by (simp add: completed_video_session_def)
  moreover from video_remix_iff_completed_video [OF sub2]
  have "c2 = [VideosCreate ''A sunset clip.'' ''sora-2'' ''8'' ''720x1280'']"
    by (simp add: SessionState_init_def default_config_def py_or_def)
  ultimately show ?thesis
    using run sub1 sub2 by simp
qed

text \<open>
  Claim C10. When the remix condition holds, the one call that starts the job is
  \<open>VideosRemix\<close> with the prior job id and the new prompt, and nothing of the turn depends
  on the seconds hint, the size hint or the two defaults. Without the condition the
  resolved seconds and size are arguments of the creation call.
\<close>

theorem remix_ignores_seconds_and_size:
  assumes "last_intent session = Some Video" "last_video_id session = Some v" "v \<noteq> []"
    "last_video_completed session"
  shows "fst (snd (video_submit c w session prompt seconds size_opt)) = [VideosRemix v prompt] \<and>
         generate_video (c\<lparr>VIDEO_SECONDS := default_seconds, VIDEO_SIZE := default_size\<rparr>) w
             session prompt seconds' size_opt' =
           generate_video c w session prompt seconds size_opt \<and>
         (\<forall>session' calls r.
            generate_video c w session prompt seconds size_opt = Some (session', calls, r) \<longrightarrow>
            filter is_submit calls = [VideosRemix v prompt]) \<and>
         (\<not> (last_intent other = Some Video \<and> truthy (last_video_id other) \<and>
              last_video_completed other) \<longrightarrow>
          fst (snd (video_submit c w other prompt seconds size_opt)) =
            [VideosCreate prompt (VIDEO_MODEL c) (py_or seconds (VIDEO_SECONDS c))
               (py_or size_opt (VIDEO_SIZE c))])"
proof -
  have remix: "video_submit c' w session prompt secs sz =
      (case videos_remix w v prompt of
         Inl e \<Rightarrow> (session, [VideosRemix v prompt], Inl e)
       | Inr job \<Rightarrow>
           (session\<lparr>last_video_id := Some (job_id job), last_video_completed := False\<rparr>,
            [VideosRemix v prompt], Inr job))" for c' secs sz
    using assms by (simp add: video_submit_def truthy_def py_or_def Let_def)
  have first: "fst (snd (video_submit c w session prompt seconds size_opt)) = [VideosRemix v prompt]"
    by (simp add: remix split: sum.splits)
  have same: "generate_video (c\<lparr>VIDEO_SECONDS := default_seconds, VIDEO_SIZE := default_size\<rparr>) w
             session prompt seconds' size_opt' =
           generate_video c w session prompt seconds size_opt"
  proof -
    have poll: "poll_video_until_done
        (c\<lparr>VIDEO_SECONDS := default_seconds, VIDEO_SIZE := default_size\<rparr>) w video_id =
        poll_video_until_done c w video_id" for video_id
      by (simp add: poll_video_until_done_def)
    have download: "download_video_mp4
        (c\<lparr>VIDEO_SECONDS := default_seconds, VIDEO_SIZE := default_size\<rparr>) w video_id =
        download_video_mp4 c w video_id" for video_id
      by (simp add: download_video_mp4_def save_bytes_def split: sum.splits)
    have submit: "video_submit
        (c\<lparr>VIDEO_SECONDS := default_seconds, VIDEO_SIZE := default_size\<rparr>) w
        session prompt seconds' size_opt' = video_submit c w session prompt seconds size_opt"
      by (simp add: remix)
    show ?thesis
      unfolding generate_video_def submit poll download by (rule refl)
  qed
  have once: "filter is_submit calls = [VideosRemix v prompt]"
    if "generate_video c w session prompt seconds size_opt = Some (session', calls, r)"
    for session' calls r
    using generate_video_submits_once [OF that] first by simp
  have fresh: "\<not> (last_intent other = Some Video \<and> truthy (last_video_id other) \<and>
              last_video_completed other) \<longrightarrow>
          fst (snd (video_submit c w other prompt seconds size_opt)) =
            [VideosCreate prompt (VIDEO_MODEL c) (py_or seconds (VIDEO_SECONDS c))
               (py_or size_opt (VIDEO_SIZE c))]"
    by (simp add: video_submit_calls)
  from first same once fresh show ?thesis by blast
qed

text \<open>
  The remix turn again, now with hints: the trace is the one without them. On a new
  session the hints reach the creation call.
\<close>

theorem remix_ignores_seconds_and_size_witness:
  "generate_video default_config video_world completed_video_session ''Make it night.''
       (Some ''12'') (Some ''1280x720'') =
     Some (completed_video_session\<lparr>last_video_id := Some ''vid_2''\<rparr>,
           [VideosRemix ''vid_1'' ''Make it night.'', VideosRetrieve ''vid_2'',
            VideosRetrieve ''vid_2'', VideosRetrieve ''vid_2'', VideosDownloadContent ''vid_2'',
            FileWrite ''server/outputs/0000000000000000000000000000abcd.mp4'' ''mp4-bytes''],
           Inr ''/outputs/0000000000000000000000000000abcd.mp4'') \<and>
   fst (snd (video_submit default_config video_world SessionState_init ''Make it night.''
               (Some ''12'') (Some ''1280x720''))) =
     [VideosCreate ''Make it night.'' ''sora-2'' ''12'' ''1280x720'']"
proof -
  have cond: "last_intent completed_video_session = Some Video"
    "last_video_id completed_video_session = Some ''vid_1''" "''vid_1'' \<noteq> []"
    "last_video_completed completed_video_session"
    by (simp_all add: completed_video_session_def)
  have fresh: "\<not> (last_intent SessionState_init = Some Video \<and>
      truthy (last_video_id SessionState_init) \<and> last_video_completed SessionState_init)"
    by (simp add: SessionState_init_def)
  have plain: "generate_video default_config video_world completed_video_session
      ''Make it night.'' None None =
     Some (completed_video_session\<lparr>last_video_id := Some ''vid_2''\<rparr>,
           [VideosRemix ''vid_1'' ''Make it night.'', VideosRetrieve ''vid_2'',
            VideosRetrieve ''vid_2'', VideosRetrieve ''vid_2'', VideosDownloadContent ''vid_2'',
            FileWrite ''server/outputs/0000000000000000000000000000abcd.mp4'' ''mp4-bytes''],
           Inr ''/outputs/0000000000000000000000000000abcd.mp4'')"
    by (simp add: run_defs world_defs completed_video_session_def)
  note t = remix_ignores_seconds_and_size [OF cond, where c = default_config
      and w = video_world and prompt = "''Make it night.''" and seconds = None
      and size_opt = None and default_seconds = "''4''" and default_size = "''720x1280''"
      and seconds' = "Some ''12''" and size_opt' = "Some ''1280x720''"
      and other = SessionState_init]
  have same_config: "default_config\<lparr>VIDEO_SECONDS := ''4'', VIDEO_SIZE := ''720x1280''\<rparr> =
      default_config"
    by (simp add: default_config_def)
  from t same_config plain have a:
    "generate_video default_config video_world completed_video_session ''Make it night.''
       (Some ''12'') (Some ''1280x720'') =
     Some (completed_video_session\<lparr>last_video_id := Some ''vid_2''\<rparr>,
           [VideosRemix ''vid_1'' ''Make it night.'', VideosRetrieve ''vid_2'',
            VideosRetrieve ''vid_2'', VideosRetrieve ''vid_2'', VideosDownloadContent ''vid_2'',
            FileWrite ''server/outputs/0000000000000000000000000000abcd.mp4'' ''mp4-bytes''],
           Inr ''/outputs/0000000000000000000000000000abcd.mp4'')"
    by simp
  note t2 = remix_ignores_seconds_and_size [OF cond, where c = default_config
      and w = video_world and prompt = "''Make it night.''" and seconds = "Some ''12''"
      and size_opt = "Some ''1280x720''" and other = SessionState_init]
  from t2 fresh have b:
    "fst (snd (video_submit default_config video_world SessionState_init ''Make it night.''
               (Some ''12'') (Some ''1280x720''))) =
     [VideosCreate ''Make it night.'' ''sora-2'' ''12'' ''1280x720'']"
    by (simp add: default_config_def py_or_def)
  from a b show ?thesis by blast
qed

text \<open>
  Claim C6. When the create or remix call answers with a job, the session that polling
  starts from records the job's id and has \<open>last_video_completed\<close> false. After the turn
  the id is still that job's, and the flag is true exactly when the poller returned a job,
  whose status it read as \<^verbatim>\<open>completed\<close>. When the call fails the session is unchanged.
  In every dictionary reached from the empty one, a session whose flag is true names a job.
\<close>

theorem video_completed_only_after_poll:
  "(\<forall>session1 calls1 job.
      video_submit c w session prompt seconds size_opt = (session1, calls1, Inr job) \<longrightarrow>
      last_video_id session1 = Some (job_id job) \<and> \<not> last_video_completed session1 \<and>
      (\<forall>session' calls r.
         generate_video c w session prompt seconds size_opt = Some (session', calls, r) \<longrightarrow>
         last_video_id session' = Some (job_id job) \<and>
         (last_video_completed session' \<longleftrightarrow>
            (\<exists>calls2 finished.
               poll_video_until_done c w (job_id job) = Some (calls2, Inr finished) \<and>
               status finished = Some ''completed'' \<and>
               (\<exists>n. videos_retrieve w n (job_id job) = Inr finished))))) \<and>
   (\<forall>session1 calls1 e.
      video_submit c w session prompt seconds size_opt = (session1, calls1, Inl e) \<longrightarrow>
      generate_video c w session prompt seconds size_opt = Some (session, calls1, Inl e)) \<and>
   (\<forall>turns S outs sid s.
      run_turns c turns Map.empty = Some (S, outs) \<and> S sid = Some s \<and>
      last_video_completed s \<longrightarrow> last_video_id s \<noteq> None)"
proof -
  have submitted:
    "last_video_id session1 = Some (job_id job) \<and> \<not> last_video_completed session1 \<and>
      (\<forall>session' calls r.
         generate_video c w session prompt seconds size_opt = Some (session', calls, r) \<longrightarrow>
         last_video_id session' = Some (job_id job) \<and>
         (last_video_completed session' \<longleftrightarrow>
            (\<exists>calls2 finished.
               poll_video_until_done c w (job_id job) = Some (calls2, Inr finished) \<and>
               status finished = Some ''completed'' \<and>
               (\<exists>n. videos_retrieve w n (job_id job) = Inr finished))))"
    if sub: "video_submit c w session prompt seconds size_opt = (session1, calls1, Inr job)"
    for session1 calls1 job
  proof -
    from video_submit_session [OF sub]
    have s1: "session1 = session\<lparr>last_video_id := Some (job_id job),
                                  last_video_completed := False\<rparr>"
      by simp
    have after: "last_video_id session' = Some (job_id job) \<and>
         (last_video_completed session' \<longleftrightarrow>
            (\<exists>calls2 finished.
               poll_video_until_done c w (job_id job) = Some (calls2, Inr finished) \<and>
               status finished = Some ''completed'' \<and>
               (\<exists>n. videos_retrieve w n (job_id job) = Inr finished)))"
      if gen: "generate_video c w session prompt seconds size_opt = Some (session', calls, r)"
      for session' calls r
      using generate_video_submitted [OF sub gen]
    proof
      assume "\<exists>calls2 e.
            poll_video_until_done c w (job_id job) = Some (calls2, Inl e) \<and>
            session' = session1 \<and> calls = calls1 @ calls2 \<and> r = Inl e"
      with s1 show ?thesis by auto
    next
      assume "\<exists>calls2 finished.
            poll_video_until_done c w (job_id job) = Some (calls2, Inr finished) \<and>
            session' = session1\<lparr>last_video_completed := True\<rparr> \<and>
            calls = calls1 @ calls2 @ fst (download_video_mp4 c w (job_id job)) \<and>
            r = snd (download_video_mp4 c w (job_id job))"
      then obtain calls2 finished where
        poll: "poll_video_until_done c w (job_id job) = Some (calls2, Inr finished)" and
        s': "session' = session1\<lparr>last_video_completed := True\<rparr>"
        by blast
      from poll_video_until_done_completed [OF poll] poll s' s1 show ?thesis
        by auto
    qed
    from s1 after show ?thesis by simp
  qed
  have failed: "generate_video c w session prompt seconds size_opt = Some (session, calls1, Inl e)"
    if "video_submit c w session prompt seconds size_opt = (session1, calls1, Inl e)"
    for session1 calls1 e
    using that by (rule generate_video_submit_failed)
  have reach: "last_video_id s \<noteq> None"
    if "run_turns c turns Map.empty = Some (S, outs)" "S sid = Some s" "last_video_completed s"
    for turns S outs sid s
  proof -
    have "video_flag_ok s"
      using that(1) _ that(2) by (rule run_turns_video_flag) simp
    with that(3) show ?thesis
      by (simp add: video_flag_ok_def)
  qed
  from submitted failed reach show ?thesis by blast
qed


text \<open>
  A first video turn under the default configuration: the job is created, polled to
  completion at the third status request, and the session ends with the flag true; the
  same turn against a job that stays queued times out and leaves the flag false.
\<close>

theorem video_completed_only_after_poll_witness:
  "video_submit default_config video_world SessionState_init ''A sunset clip.'' (Some ''8'') None =
     (SessionState_init\<lparr>last_video_id := Some ''vid_1''\<rparr>,
      [VideosCreate ''A sunset clip.'' ''sora-2'' ''8'' ''720x1280''],
      Inr \<lparr>job_id = ''vid_1'', status = Some ''queued''\<rparr>) \<and>
   map_option fst (generate_video default_config video_world SessionState_init
       ''A sunset clip.'' (Some ''8'') None) =
     Some (SessionState_init\<lparr>last_video_id := Some ''vid_1'', last_video_completed := True\<rparr>) \<and>
   generate_video default_config video_slow_world SessionState_init
       ''A sunset clip.'' (Some ''8'') None =
     Some (SessionState_init\<lparr>last_video_id := Some ''vid_1''\<rparr>,
           [VideosCreate ''A sunset clip.'' ''sora-2'' ''8'' ''720x1280'', VideosRetrieve ''vid_1''],
           Inl (HTTPException 504 ''Video generation timed out: vid_1'')) \<and>
   map_option (\<lambda>(S, outs). S ''s1'') (run_turns default_config [(video_world, sunset_request)] Map.empty) =
     Some (Some \<lparr>messages =
                   [\<lparr>role = ''user'', content = ''a clip of a sunset''\<rparr>,
                    \<lparr>role = ''assistant'',
                     content = ''[video generated] /outputs/0000000000000000000000000000abcd.mp4''\<rparr>],
                 last_intent = Some Video, last_image_response_id = None,
                 last_video_id = Some ''vid_1'', last_video_completed = True\<rparr>)"
proof -
  let ?job = "\<lparr>job_id = ''vid_1'', status = Some ''queued''\<rparr>"
  let ?s1 = "SessionState_init\<lparr>last_video_id := Some ''vid_1''\<rparr>"
  let ?create = "VideosCreate ''A sunset clip.'' ''sora-2'' ''8'' ''720x1280''"
  let ?url = "''/outputs/0000000000000000000000000000abcd.mp4''"
  let ?trace = "[?create, VideosRetrieve ''vid_1'', VideosRetrieve ''vid_1'',
      VideosRetrieve ''vid_1'', VideosDownloadContent ''vid_1'',
      FileWrite ''server/outputs/0000000000000000000000000000abcd.mp4'' ''mp4-bytes'']"
  let ?final = "\<lparr>messages =
                   [\<lparr>role = ''user'', content = ''a clip of a sunset''\<rparr>,
                    \<lparr>role = ''assistant'',
                     content = ''[video generated] /outputs/0000000000000000000000000000abcd.mp4''\<rparr>],
                 last_intent = Some Video, last_image_response_id = None,
                 last_video_id = Some ''vid_1'', last_video_completed = True\<rparr>"
  have sub: "video_submit default_config video_world SessionState_init ''A sunset clip.''
      (Some ''8'') None = (?s1, [?create], Inr ?job)"
    by (simp add: run_defs world_defs SessionState_init_def)
  have sub_slow: "video_submit default_config video_slow_world SessionState_init ''A sunset clip.''
      (Some ''8'') None = (?s1, [?create], Inr ?job)"
    by (simp add: run_defs world_defs SessionState_init_def)
  have gen: "generate_video default_config video_world SessionState_init ''A sunset clip.''
      (Some ''8'') None = Some (?s1\<lparr>last_video_completed := True\<rparr>, ?trace, Inr ?url)"
    by (simp add: run_defs world_defs SessionState_init_def)
  have slow: "generate_video default_config video_slow_world SessionState_init
       ''A sunset clip.'' (Some ''8'') None =
     Some (?s1, [?create, VideosRetrieve ''vid_1''],
           Inl (HTTPException 504 ''Video generation timed out: vid_1''))"
    by (simp add: run_defs world_defs SessionState_init_def)
  have turns: "run_turns default_config [(video_world, sunset_request)] Map.empty =
      Some ([''s1'' \<mapsto> ?final],
            [(ResponsesParse ''gpt-4o-mini'' (router_input ''a clip of a sunset'' SessionState_init)
                # ?trace,
              Inr \<lparr>session_id = ''s1'', intent = Video, content_type = ''video'',
                   text_out = None, asset_url = Some ?url,
                   debug = [(''routed_prompt'', Some ''A sunset clip.''),
                            (''seconds'', Some ''8''), (''size'', None)]\<rparr>)])"
    by (simp add: sunset_request_def handle_message_def get_or_create_session_def
          route_intent_def strip_def py_isspace_def dispatch_def run_defs world_defs
          SessionState_init_def)
  note fast = video_completed_only_after_poll [of default_config video_world
      SessionState_init "''A sunset clip.''" "Some ''8''" None]
  note late = video_completed_only_after_poll [of default_config video_slow_world
      SessionState_init "''A sunset clip.''" "Some ''8''" None]
  from fast sub have "\<not> last_video_completed ?s1 \<and> last_video_id ?s1 = Some ''vid_1''"
    by simp
  moreover from fast sub gen
  have "last_video_id (?s1\<lparr>last_video_completed := True\<rparr>) = Some ''vid_1''"
    by simp
  moreover from late sub_slow slow
  have "\<not> (\<exists>calls2 finished.
            poll_video_until_done default_config video_slow_world ''vid_1'' =
              Some (calls2, Inr finished) \<and> status finished = Some ''completed'' \<and>
              (\<exists>n. videos_retrieve video_slow_world n ''vid_1'' = Inr finished))"
    by (simp add: SessionState_init_def)
  moreover from fast turns have "last_video_id ?final \<noteq> None"
    by simp
  ultimately show ?thesis
    using sub gen slow turns by simp
qed


subsection \<open>Empty input\<close>

lemma strip_empty_iff: "strip s = [] \<longleftrightarrow> (\<forall>ch \<in> set s. py_isspace ch)"
proof
  assume "strip s = []"
  then have "dropWhile py_isspace (rev (dropWhile py_isspace s)) = []"
    by (simp add: strip_def)
  then have "\<forall>ch \<in> set (dropWhile py_isspace s). py_isspace ch"
    by simp
  moreover have "\<forall>ch \<in> set (takeWhile py_isspace s). py_isspace ch"
    by (auto dest: set_takeWhileD)
  moreover have "set s = set (takeWhile py_isspace s) \<union> set (dropWhile py_isspace s)"
    by (metis set_append takeWhile_dropWhile_id)
  ultimately show "\<forall>ch \<in> set s. py_isspace ch"
    by blast
next
  assume "\<forall>ch \<in> set s. py_isspace ch"
  then show "strip s = []"
    by (auto simp: strip_def dest: set_dropWhileD)
qed

text \<open>
  Claim C1, as the code has it. A request whose text is empty or whitespace-only is
  answered with status 400 and no outside call. The session is resolved before the text
  is looked at: with a known session id the dictionary is returned as it was, and with an
  absent or unknown id it has gained one entry, an empty \<open>SessionState\<close> under the
  resolved id.
\<close>

theorem empty_message_rejected:
  assumes "\<forall>ch \<in> set (req_text req). py_isspace ch"
  shows "((\<exists>k. req_session_id req = Some k \<and> k \<noteq> [] \<and> S k \<noteq> None) \<longrightarrow>
            handle_message c w req S =
              Some (S, [], Inl (HTTPException 400 ''Empty message.''))) \<and>
         (\<not> (\<exists>k. req_session_id req = Some k \<and> k \<noteq> [] \<and> S k \<noteq> None) \<longrightarrow>
            handle_message c w req S =
              Some (S(py_or (req_session_id req) (uuid_str (uuid4_session w)) \<mapsto> SessionState_init),
                    [], Inl (HTTPException 400 ''Empty message.'')))"
proof -
  have empty: "strip (req_text req) = []"
    using assms by (simp add: strip_empty_iff)
  have known: "handle_message c w req S = Some (S, [], Inl (HTTPException 400 ''Empty message.''))"
    if "\<exists>k. req_session_id req = Some k \<and> k \<noteq> [] \<and> S k \<noteq> None"
  proof -
    from that obtain k s where "req_session_id req = Some k" "k \<noteq> []" "S k = Some s"
      by auto
    then have "get_or_create_session w (req_session_id req) S = (k, s, S)"
      by (simp add: get_or_create_session_known)
    from handle_message_unfold [OF this] empty show ?thesis
      by simp
  qed
  have fresh: "handle_message c w req S =
      Some (S(py_or (req_session_id req) (uuid_str (uuid4_session w)) \<mapsto> SessionState_init),
            [], Inl (HTTPException 400 ''Empty message.''))"
    if "\<not> (\<exists>k. req_session_id req = Some k \<and> k \<noteq> [] \<and> S k \<noteq> None)"
    using handle_message_unfold [OF get_or_create_session_new [OF that]] empty
    by simp
  from known fresh show ?thesis by blast
qed

text \<open>
  An empty message for the known session \<open>s1\<close> leaves the dictionary alone; three blanks
  without a session id add an entry.
\<close>

theorem empty_message_rejected_witness:
  "handle_message default_config offline blank_known_request [''s1'' \<mapsto> short_session] =
     Some ([''s1'' \<mapsto> short_session], [], Inl (HTTPException 400 ''Empty message.'')) \<and>
   handle_message default_config offline blank_request [''s1'' \<mapsto> short_session] =
     Some ([''s1'' \<mapsto> short_session,
            ''00000000-0000-0000-0000-000000001234'' \<mapsto> SessionState_init],
           [], Inl (HTTPException 400 ''Empty message.''))"
proof -
  have blank1: "\<forall>ch \<in> set (req_text blank_known_request). py_isspace ch"
    by (simp add: blank_known_request_def)
  have blank2: "\<forall>ch \<in> set (req_text blank_request). py_isspace ch"
    by (simp add: blank_request_def py_isspace_def)
  have known: "\<exists>k. req_session_id blank_known_request = Some k \<and> k \<noteq> [] \<and>
      [''s1'' \<mapsto> short_session] k \<noteq> None"
    by (simp add: blank_known_request_def)
  have unknown: "\<not> (\<exists>k. req_session_id blank_request = Some k \<and> k \<noteq> [] \<and>
      [''s1'' \<mapsto> short_session] k \<noteq> None)"
    by (simp add: blank_request_def)
  from empty_message_rejected [OF blank1, of "[''s1'' \<mapsto> short_session]" default_config offline]
    known
  have a: "handle_message default_config offline blank_known_request [''s1'' \<mapsto> short_session] =
     Some ([''s1'' \<mapsto> short_session], [], Inl (HTTPException 400 ''Empty message.''))"
    by blast
  from empty_message_rejected [OF blank2, of "[''s1'' \<mapsto> short_session]" default_config offline]
    unknown
  have "handle_message default_config offline blank_request [''s1'' \<mapsto> short_session] =
     Some ([''s1'' \<mapsto> short_session,
            py_or (req_session_id blank_request) (uuid_str (uuid4_session offline))
              \<mapsto> SessionState_init],
           [], Inl (HTTPException 400 ''Empty message.''))"
    by blast
  then have b: "handle_message default_config offline blank_request [''s1'' \<mapsto> short_session] =
     Some ([''s1'' \<mapsto> short_session,
            ''00000000-0000-0000-0000-000000001234'' \<mapsto> SessionState_init],
           [], Inl (HTTPException 400 ''Empty message.''))"
    by (simp add: blank_request_def py_or_def offline_def uuid_str_session)
  from a b show ?thesis by blast
qed

text \<open>
  Against claim C1 as stated: a whitespace-only message without a session id, sent to a
  server with no sessions, is rejected with status 400 and leaves a session behind.
\<close>

theorem empty_message_creates_session:
  "handle_message default_config offline blank_request Map.empty =
     Some ([''00000000-0000-0000-0000-000000001234'' \<mapsto> SessionState_init], [],
           Inl (HTTPException 400 ''Empty message.'')) \<and>
   dom [''00000000-0000-0000-0000-000000001234'' \<mapsto> SessionState_init] \<noteq>
     dom (Map.empty :: SESSIONS)"
  by (simp add: handle_message_def get_or_create_session_def blank_request_def strip_def
        py_isspace_def offline_def uuid_str_session)

subsection \<open>Resolving a session\<close>

text \<open>
  Claim C4, as the code has it. When the session id is absent (\<^verbatim>\<open>None\<close> or empty) the
  id is the string of a freshly drawn uuid; when it is given but not in the dictionary,
  the caller's id itself is kept. Either way an empty \<open>SessionState\<close> is stored under the
  id and returned, the id is not empty, and a later resolution with that id returns
  whatever the dictionary then holds under it, leaving the dictionary unchanged.
\<close>

theorem resolve_absent_or_unknown:
  assumes "\<not> (\<exists>k. sid_opt = Some k \<and> k \<noteq> [] \<and> S k \<noteq> None)"
  shows "\<exists>sid.
           get_or_create_session w sid_opt S =
             (sid, SessionState_init, S(sid \<mapsto> SessionState_init)) \<and>
           sid \<noteq> [] \<and>
           (sid_opt = None \<or> sid_opt = Some [] \<longrightarrow> sid = uuid_str (uuid4_session w)) \<and>
           (\<forall>k. sid_opt = Some k \<and> k \<noteq> [] \<longrightarrow> sid = k) \<and>
           get_or_create_session w2 (Some sid) (S(sid \<mapsto> SessionState_init)) =
             (sid, SessionState_init, S(sid \<mapsto> SessionState_init)) \<and>
           (\<forall>S2 state. S2 sid = Some state \<longrightarrow>
              get_or_create_session w2 (Some sid) S2 = (sid, state, S2))"
proof -
  let ?sid = "py_or sid_opt (uuid_str (uuid4_session w))"
  have res: "get_or_create_session w sid_opt S =
      (?sid, SessionState_init, S(?sid \<mapsto> SessionState_init))"
    using assms by (rule get_or_create_session_new)
  have nonempty: "?sid \<noteq> []"
    using get_or_create_session_stored [OF res] by simp
  have absent: "sid_opt = None \<or> sid_opt = Some [] \<longrightarrow> ?sid = uuid_str (uuid4_session w)"
    by (auto simp: py_or_def)
  have given: "\<forall>k. sid_opt = Some k \<and> k \<noteq> [] \<longrightarrow> ?sid = k"
    by (auto simp: py_or_def)
  have later: "get_or_create_session w2 (Some ?sid) S2 = (?sid, state, S2)"
    if "S2 ?sid = Some state" for S2 state
    using nonempty that by (rule get_or_create_session_known)
  have again: "get_or_create_session w2 (Some ?sid) (S(?sid \<mapsto> SessionState_init)) =
      (?sid, SessionState_init, S(?sid \<mapsto> SessionState_init))"
    by (rule later) simp
  from res nonempty absent given again later show ?thesis
    by blast
qed

text \<open>
  On a server that holds session \<open>s1\<close>: no id draws a uuid, the unknown id \<open>abc\<close> is
  kept, and resolving \<open>abc\<close> again returns the stored state.
\<close>

theorem resolve_absent_or_unknown_witness:
  "get_or_create_session offline None [''s1'' \<mapsto> short_session] =
     (''00000000-0000-0000-0000-000000001234'', SessionState_init,
      [''s1'' \<mapsto> short_session,
       ''00000000-0000-0000-0000-000000001234'' \<mapsto> SessionState_init]) \<and>
   get_or_create_session offline (Some ''abc'') [''s1'' \<mapsto> short_session] =
     (''abc'', SessionState_init, [''s1'' \<mapsto> short_session, ''abc'' \<mapsto> SessionState_init]) \<and>
   get_or_create_session text_world (Some ''abc'')
       [''s1'' \<mapsto> short_session, ''abc'' \<mapsto> SessionState_init] =
     (''abc'', SessionState_init, [''s1'' \<mapsto> short_session, ''abc'' \<mapsto> SessionState_init])"
proof -
  have none: "\<not> (\<exists>k. (None :: string option) = Some k \<and> k \<noteq> [] \<and>
      [''s1'' \<mapsto> short_session] k \<noteq> None)"
    by simp
  have abc: "\<not> (\<exists>k. Some ''abc'' = Some k \<and> k \<noteq> [] \<and> [''s1'' \<mapsto> short_session] k \<noteq> None)"
    by simp
  have drawn: "uuid_str (uuid4_session offline) = ''00000000-0000-0000-0000-000000001234''"
    by (simp add: offline_def uuid_str_session)
  from resolve_absent_or_unknown [OF none, of offline text_world] obtain sid where
    "get_or_create_session offline None [''s1'' \<mapsto> short_session] =
       (sid, SessionState_init, [''s1'' \<mapsto> short_session, sid \<mapsto> SessionState_init])"
    "sid = uuid_str (uuid4_session offline)"
    by blast
  with drawn
  have a: "get_or_create_session offline None [''s1'' \<mapsto> short_session] =
     (''00000000-0000-0000-0000-000000001234'', SessionState_init,
      [''s1'' \<mapsto> short_session,
       ''00000000-0000-0000-0000-000000001234'' \<mapsto> SessionState_init])"
    by simp
  from resolve_absent_or_unknown [OF abc, of offline text_world] obtain sid where
    "get_or_create_session offline (Some ''abc'') [''s1'' \<mapsto> short_session] =
       (sid, SessionState_init, [''s1'' \<mapsto> short_session, sid \<mapsto> SessionState_init])"
    "sid = ''abc''"
    "get_or_create_session text_world (Some sid)
       [''s1'' \<mapsto> short_session, sid \<mapsto> SessionState_init] =
     (sid, SessionState_init, [''s1'' \<mapsto> short_session, sid \<mapsto> SessionState_init])"
    by blast
  then
  have b: "get_or_create_session offline (Some ''abc'') [''s1'' \<mapsto> short_session] =
     (''abc'', SessionState_init, [''s1'' \<mapsto> short_session, ''abc'' \<mapsto> SessionState_init]) \<and>
   get_or_create_session text_world (Some ''abc'')
       [''s1'' \<mapsto> short_session, ''abc'' \<mapsto> SessionState_init] =
     (''abc'', SessionState_init, [''s1'' \<mapsto> short_session, ''abc'' \<mapsto> SessionState_init])"
    by simp
  from a b show ?thesis by blast
qed

text \<open>
  Against claim C4 as stated: for the id \<open>abc\<close>, which the server has never seen, no id
  is generated. The id returned is \<open>abc\<close>, not the uuid the generator would give.
\<close>

theorem resolve_unknown_keeps_caller_id:
  "get_or_create_session offline (Some ''abc'') Map.empty =
     (''abc'', SessionState_init, [''abc'' \<mapsto> SessionState_init]) \<and>
   uuid_str (uuid4_session offline) = ''00000000-0000-0000-0000-000000001234'' \<and>
   ''abc'' \<noteq> uuid_str (uuid4_session offline)"
  by (simp add: get_or_create_session_def offline_def uuid_str_session)


subsection \<open>Text turns\<close>

lemma get_or_create_session_given:
  assumes "sid \<noteq> []"
  shows "get_or_create_session w (Some sid) S =
     (sid, (case S sid of None \<Rightarrow> SessionState_init | Some s \<Rightarrow> s),
      (case S sid of None \<Rightarrow> S(sid \<mapsto> SessionState_init) | Some s \<Rightarrow> S))"
  using assms by (simp add: get_or_create_session_def split: option.splits)

lemma handle_message_text_success:
  assumes run: "handle_message c w req S = Some (S', calls, Inr resp)"
    and is_text: "intent resp = Text"
    and res: "get_or_create_session w (req_session_id req) S = (sid, session, S1)"
  shows "\<exists>prompt reply.
           S' = S1(sid \<mapsto> session\<lparr>messages := messages session @
                   text_turn_messages (strip (req_text req)) prompt reply,
                 last_intent := Some Text\<rparr>) \<and>
           text_out resp = Some reply \<and> debug resp = [(''routed_prompt'', Some prompt)]"
proof -
  from handle_message_dispatched [OF run res] obtain decision session2 calls2 r2 where
    d: "dispatch c w sid
          (session\<lparr>messages := messages session @
             [\<lparr>role = ''user'', content = strip (req_text req)\<rparr>]\<rparr>) decision
          = Some (session2, calls2, r2)" and
    S': "S' = S1(sid \<mapsto> session2)" and
    r: "Inr resp = map_sum reraise id r2"
    by blast
  from r have "r2 = Inr resp"
    by (cases r2) auto
  with d have "dispatch c w sid
          (session\<lparr>messages := messages session @
             [\<lparr>role = ''user'', content = strip (req_text req)\<rparr>]\<rparr>) decision
          = Some (session2, calls2, Inr resp)"
    by simp
  from dispatch_text_success [OF this is_text] obtain prompt reply where
    "session2 = session\<lparr>messages := messages session @
        [\<lparr>role = ''user'', content = strip (req_text req)\<rparr>]\<rparr>
      \<lparr>messages := messages (session\<lparr>messages := messages session @
        [\<lparr>role = ''user'', content = strip (req_text req)\<rparr>]\<rparr>) @
                        [\<lparr>role = ''user'', content = prompt\<rparr>,
                         \<lparr>role = ''assistant'', content = reply\<rparr>],
                      last_intent := Some Text\<rparr>"
    "text_out resp = Some reply" "debug resp = [(''routed_prompt'', Some prompt)]"
    by blast
  with S' show ?thesis
    by (auto simp: text_turn_messages_def)
qed

lemma run_text_turns:
  assumes "run_turns c turns S = Some (S', outs)"
    and "\<forall>(w, req) \<in> set turns. req_session_id req = Some sid"
    and "sid \<noteq> []"
    and "\<forall>(calls, r) \<in> set outs. \<exists>resp. r = Inr resp \<and> intent resp = Text"
    and "turns \<noteq> [] \<or> S sid \<noteq> None"
  shows "\<exists>session' replies.
           S' sid = Some session' \<and> length replies = length turns \<and>
           messages session' =
             messages (case S sid of None \<Rightarrow> SessionState_init | Some s \<Rightarrow> s) @
             concat (map2 (\<lambda>raw (prompt, reply). text_turn_messages raw prompt reply)
                       (submitted turns) replies) \<and>
           length (messages session') =
             length (messages (case S sid of None \<Rightarrow> SessionState_init | Some s \<Rightarrow> s)) +
             3 * length turns"
  using assms
proof (induction turns arbitrary: S outs)
  case Nil
  then show ?case
    by (auto simp: submitted_def)
next
  case (Cons turn turns)
  obtain w req where turn: "turn = (w, req)"
    by (cases turn) auto
  let ?before = "case S sid of None \<Rightarrow> SessionState_init | Some s \<Rightarrow> s"
  let ?S1 = "case S sid of None \<Rightarrow> S(sid \<mapsto> SessionState_init) | Some s \<Rightarrow> S"
  from Cons.prems(1) turn obtain S1 calls r outs1 where
    first: "handle_message c w req S = Some (S1, calls, r)" and
    rest: "run_turns c turns S1 = Some (S', outs1)" and
    outs: "outs = (calls, r) # outs1"
    by (auto split: option.splits prod.splits)
  from Cons.prems(4) outs obtain resp where
    r: "r = Inr resp" "intent resp = Text" and
    outs1: "\<forall>(calls, r) \<in> set outs1. \<exists>resp. r = Inr resp \<and> intent resp = Text"
    by auto
  from Cons.prems(2) turn have id: "req_session_id req = Some sid" and
    ids: "\<forall>(w, req) \<in> set turns. req_session_id req = Some sid"
    by auto
  have res: "get_or_create_session w (req_session_id req) S = (sid, ?before, ?S1)"
    unfolding id using Cons.prems(3) by (rule get_or_create_session_given)
  from first r have "handle_message c w req S = Some (S1, calls, Inr resp)"
    by simp
  from handle_message_text_success [OF this r(2) res] obtain prompt reply where
    S1: "S1 = ?S1(sid \<mapsto> ?before\<lparr>messages := messages ?before @
                   text_turn_messages (strip (req_text req)) prompt reply,
                 last_intent := Some Text\<rparr>)"
    by blast
  then have at: "S1 sid = Some (?before\<lparr>messages := messages ?before @
                   text_turn_messages (strip (req_text req)) prompt reply,
                 last_intent := Some Text\<rparr>)"
    by simp
  then have "turns \<noteq> [] \<or> S1 sid \<noteq> None"
    by simp
  from Cons.IH [OF rest ids Cons.prems(3) outs1 this] at obtain session' replies where
    s': "S' sid = Some session'" and
    len: "length replies = length turns" and
    msgs: "messages session' =
             (messages ?before @ text_turn_messages (strip (req_text req)) prompt reply) @
             concat (map2 (\<lambda>raw (prompt, reply). text_turn_messages raw prompt reply)
                       (submitted turns) replies)" and
    count: "length (messages session') =
             length (messages ?before @ text_turn_messages (strip (req_text req)) prompt reply) +
             3 * length turns"
    by auto
  have "length ((prompt, reply) # replies) = length (turn # turns)"
    using len by simp
  moreover have "messages session' = messages ?before @
      concat (map2 (\<lambda>raw (prompt, reply). text_turn_messages raw prompt reply)
                (submitted (turn # turns)) ((prompt, reply) # replies))"
    using msgs turn by (simp add: submitted_def)
  moreover have "length (messages session') = length (messages ?before) + 3 * length (turn # turns)"
    using count by (simp add: text_turn_messages_def)
  ultimately show ?case
    using s' by blast
qed

text \<open>
  Claim C2, as the code has it. \<^verbatim>\<open>generate_text\<close> appends two entries, the prompt as a
  user message and the reply as an assistant message; the handler has recorded the raw
  user text before, so every successful text turn adds three entries. After any sequence
  of successful text turns on one session the history is the old one followed by the
  three entries of each turn, in the order the turns were submitted.
\<close>

theorem text_turns_append_three_each:
  assumes "run_turns c turns S = Some (S', outs)"
    and "\<forall>(w, req) \<in> set turns. req_session_id req = Some sid"
    and "sid \<noteq> []"
    and "\<forall>(calls, r) \<in> set outs. \<exists>resp. r = Inr resp \<and> intent resp = Text"
    and "turns \<noteq> [] \<or> S sid \<noteq> None"
  shows "(\<exists>session' replies.
           S' sid = Some session' \<and> length replies = length turns \<and>
           messages session' =
             messages (case S sid of None \<Rightarrow> SessionState_init | Some s \<Rightarrow> s) @
             concat (map2 (\<lambda>raw (prompt, reply). text_turn_messages raw prompt reply)
                       (submitted turns) replies) \<and>
           length (messages session') =
             length (messages (case S sid of None \<Rightarrow> SessionState_init | Some s \<Rightarrow> s)) +
             3 * length turns) \<and>
         (\<forall>w session prompt session1 calls reply.
            generate_text c w session prompt = (session1, calls, Inr reply) \<longrightarrow>
            messages session1 = messages session @
              [\<lparr>role = ''user'', content = prompt\<rparr>, \<lparr>role = ''assistant'', content = reply\<rparr>])"
proof -
  have two: "messages session1 = messages session @
              [\<lparr>role = ''user'', content = prompt\<rparr>, \<lparr>role = ''assistant'', content = reply\<rparr>]"
    if "generate_text c w session prompt = (session1, calls, Inr reply)"
    for w session prompt session1 calls reply
    using generate_text_effect [OF that] by auto
  from run_text_turns [OF assms] two show ?thesis
    by blast
qed

text \<open>
  Two successful text turns on the new session \<open>s1\<close>: six messages, the raw text, the
  routed prompt and the reply of the first turn, then those of the second.
\<close>

theorem text_turns_append_three_each_witness:
  "map_option (\<lambda>(S, outs). map_option messages (S ''s1''))
     (run_turns default_config [(text_world, haiku_request), (text_world, again_request)]
        Map.empty) =
     Some (Some [\<lparr>role = ''user'', content = ''write a haiku about rain''\<rparr>,
                 \<lparr>role = ''user'', content = ''Write a haiku about rain.''\<rparr>,
                 \<lparr>role = ''assistant'', content = ''Rain taps the window''\<rparr>,
                 \<lparr>role = ''user'', content = ''another one''\<rparr>,
                 \<lparr>role = ''user'', content = ''Write a haiku about rain.''\<rparr>,
                 \<lparr>role = ''assistant'', content = ''Rain taps the window''\<rparr>]) \<and>
   map_option (\<lambda>(S, outs). map_option (length \<circ> messages) (S ''s1''))
     (run_turns default_config [(text_world, haiku_request), (text_world, again_request)]
        Map.empty) = Some (Some (0 + 3 * 2))"
proof -
  let ?turns = "[(text_world, haiku_request), (text_world, again_request)]"
  let ?m1 = "[\<lparr>role = ''user'', content = ''write a haiku about rain''\<rparr>,
              \<lparr>role = ''user'', content = ''Write a haiku about rain.''\<rparr>,
              \<lparr>role = ''assistant'', content = ''Rain taps the window''\<rparr>]"
  let ?m2 = "?m1 @ [\<lparr>role = ''user'', content = ''another one''\<rparr>,
              \<lparr>role = ''user'', content = ''Write a haiku about rain.''\<rparr>,
              \<lparr>role = ''assistant'', content = ''Rain taps the window''\<rparr>]"
  let ?s1 = "\<lparr>messages = ?m1, last_intent = Some Text, last_image_response_id = None,
              last_video_id = None, last_video_completed = False\<rparr>"
  let ?s2 = "\<lparr>messages = ?m2, last_intent = Some Text, last_image_response_id = None,
              last_video_id = None, last_video_completed = False\<rparr>"
  let ?resp = "\<lparr>session_id = ''s1'', intent = Text, content_type = ''text'',
                text_out = Some ''Rain taps the window'', asset_url = None,
                debug = [(''routed_prompt'', Some ''Write a haiku about rain.'')]\<rparr>"
  let ?outs = "[([ResponsesParse ''gpt-4o-mini''
                    (router_input ''write a haiku about rain'' SessionState_init),
                  ResponsesCreate ''gpt-5.2'' (take 2 ?m1)], Inr ?resp),
                ([ResponsesParse ''gpt-4o-mini'' (router_input ''another one'' ?s1),
                  ResponsesCreate ''gpt-5.2'' (take 5 ?m2)], Inr ?resp)]"
  have run: "run_turns default_config ?turns Map.empty = Some ([''s1'' \<mapsto> ?s2], ?outs)"
    by (simp add: haiku_request_def again_request_def handle_message_def
          get_or_create_session_def route_intent_def strip_def py_isspace_def dispatch_def
          run_defs world_defs SessionState_init_def)
  have ids: "\<forall>(w, req) \<in> set ?turns. req_session_id req = Some ''s1''"
    by (simp add: haiku_request_def again_request_def)
  have ok: "\<forall>(calls, r) \<in> set ?outs. \<exists>resp. r = Inr resp \<and> intent resp = Text"
    by simp
  have some: "?turns \<noteq> [] \<or> (Map.empty :: SESSIONS) ''s1'' \<noteq> None"
    by simp
  from text_turns_append_three_each [OF run ids _ ok some]
  have "length (messages ?s2) = length (messages SessionState_init) + 3 * length ?turns"
    by auto
  then have "length ?m2 = 0 + 3 * 2"
    by (simp add: SessionState_init_def)
  with run show ?thesis
    by simp
qed

text \<open>
  Against claim C2 as stated: the first successful text turn of a new session leaves
  three messages in a history that was empty, not two.
\<close>

theorem text_turn_adds_three_messages:
  "map_option (\<lambda>(S, calls, r). (map_option messages (S ''s1''), map_sum id intent r))
     (handle_message default_config text_world haiku_request Map.empty) =
     Some (Some [\<lparr>role = ''user'', content = ''write a haiku about rain''\<rparr>,
                 \<lparr>role = ''user'', content = ''Write a haiku about rain.''\<rparr>,
                 \<lparr>role = ''assistant'', content = ''Rain taps the window''\<rparr>],
           Inr Text) \<and>
   length [\<lparr>role = ''user'', content = ''write a haiku about rain''\<rparr>,
           \<lparr>role = ''user'', content = ''Write a haiku about rain.''\<rparr>,
           \<lparr>role = ''assistant'', content = ''Rain taps the window''\<rparr>] \<noteq>
     length (messages SessionState_init) + 2"
  by (simp add: haiku_request_def handle_message_def get_or_create_session_def
        route_intent_def strip_def py_isspace_def dispatch_def run_defs world_defs
        SessionState_init_def)


subsection \<open>The image continuation handle\<close>

lemmas handler_defs = handle_message_def get_or_create_session_def route_intent_def strip_def
  py_isspace_def dispatch_def SessionState_init_def

lemma handle_message_others:
  assumes run: "handle_message c w req S = Some (S', calls, r)"
    and res: "get_or_create_session w (req_session_id req) S = (sid, session, S1)"
    and other: "k \<noteq> sid"
  shows "S' k = S k"
  using handle_message_store [OF run res] get_or_create_session_others [OF res other] other
  by auto

text \<open>
  Claim C3, as the code has it. \<^verbatim>\<open>generate_image\<close> makes one image call first. When that
  call raises, the session is returned unchanged, so an absent handle stays absent. When
  it answers, the id of the response is recorded as the handle at once, whatever the rest
  of the turn does. A turn changes the handle of its session only in this way, and leaves
  every other session of the dictionary alone.
\<close>

theorem image_handle_recorded_on_response:
  "(\<forall>session' calls r.
      generate_image c w session prompt style = (session', calls, r) \<longrightarrow>
      (\<exists>input prev.
         take 1 calls = [ResponsesCreateImage (TEXT_MODEL c) input prev] \<and>
         ((\<exists>e. responses_create_image w (TEXT_MODEL c) input prev = Inl e \<and>
               session' = session \<and> r = Inl e) \<or>
          (\<exists>resp. responses_create_image w (TEXT_MODEL c) input prev = Inr resp \<and>
               session' = session\<lparr>last_image_response_id := Some (resp_id resp)\<rparr>)))) \<and>
   (\<forall>S' calls r sid before S1 after.
      handle_message c w req S = Some (S', calls, r) \<and>
      get_or_create_session w (req_session_id req) S = (sid, before, S1) \<and>
      S' sid = Some after \<and> last_image_response_id after \<noteq> last_image_response_id before \<longrightarrow>
      (\<exists>input prev resp.
         ResponsesCreateImage (TEXT_MODEL c) input prev \<in> set calls \<and>
         responses_create_image w (TEXT_MODEL c) input prev = Inr resp \<and>
         last_image_response_id after = Some (resp_id resp))) \<and>
   (\<forall>S' calls r sid before S1 k.
      handle_message c w req S = Some (S', calls, r) \<and>
      get_or_create_session w (req_session_id req) S = (sid, before, S1) \<and> k \<noteq> sid \<longrightarrow>
      S' k = S k)"
proof -
  have gen: "\<exists>input prev.
         take 1 calls = [ResponsesCreateImage (TEXT_MODEL c) input prev] \<and>
         ((\<exists>e. responses_create_image w (TEXT_MODEL c) input prev = Inl e \<and>
               session' = session \<and> r = Inl e) \<or>
          (\<exists>resp. responses_create_image w (TEXT_MODEL c) input prev = Inr resp \<and>
               session' = session\<lparr>last_image_response_id := Some (resp_id resp)\<rparr>))"
    if "generate_image c w session prompt style = (session', calls, r)"
    for session' calls r
    using generate_image_effect [OF that] by blast
  have turn: "\<exists>input prev resp.
         ResponsesCreateImage (TEXT_MODEL c) input prev \<in> set calls \<and>
         responses_create_image w (TEXT_MODEL c) input prev = Inr resp \<and>
         last_image_response_id after = Some (resp_id resp)"
    if run: "handle_message c w req S = Some (S', calls, r)"
      and res: "get_or_create_session w (req_session_id req) S = (sid, before, S1)"
      and at: "S' sid = Some after"
      and diff: "last_image_response_id after \<noteq> last_image_response_id before"
    for S' calls r sid before S1 after
  proof -
    from get_or_create_session_stored [OF res] have "S1 sid = Some before"
      by simp
    with at diff have "S' \<noteq> S1"
      by auto
    with handle_message_dispatched [OF run res] obtain decision session2 calls2 r2 where
      d: "dispatch c w sid
            (before\<lparr>messages := messages before @
               [\<lparr>role = ''user'', content = strip (req_text req)\<rparr>]\<rparr>) decision
            = Some (session2, calls2, r2)" and
      S': "S' = S1(sid \<mapsto> session2)" and
      calls: "calls = ResponsesParse (ROUTER_MODEL c)
                (router_input (strip (req_text req)) before) # calls2"
      by blast
    from S' at have after: "after = session2"
      by simp
    with diff have "last_image_response_id session2 \<noteq>
        last_image_response_id (before\<lparr>messages := messages before @
               [\<lparr>role = ''user'', content = strip (req_text req)\<rparr>]\<rparr>)"
      by simp
    from dispatch_image_handle [OF d this] obtain input prev resp where
      first: "take 1 calls2 = [ResponsesCreateImage (TEXT_MODEL c) input prev]" and
      answer: "responses_create_image w (TEXT_MODEL c) input prev = Inr resp" and
      handle: "last_image_response_id session2 = Some (resp_id resp)"
      by blast
    from first have "ResponsesCreateImage (TEXT_MODEL c) input prev \<in> set (take 1 calls2)"
      by simp
    then have "ResponsesCreateImage (TEXT_MODEL c) input prev \<in> set calls2"
      by (rule in_set_takeD)
    with calls answer handle after show ?thesis
      by auto
  qed
  have others: "S' k = S k"
    if "handle_message c w req S = Some (S', calls, r)"
      "get_or_create_session w (req_session_id req) S = (sid, before, S1)" "k \<noteq> sid"
    for S' calls r sid before S1 k
    using that by (rule handle_message_others)
  from gen turn others show ?thesis
    by blast
qed

text \<open>
  An image call that raises leaves the new session without a handle; one that answers
  with an image records \<open>resp_1\<close>, in \<^verbatim>\<open>generate_image\<close> and in a whole turn.
\<close>

theorem image_handle_recorded_on_response_witness:
  "generate_image default_config offline SessionState_init ''A red fox.'' None =
     (SessionState_init, [ResponsesCreateImage ''gpt-5.2'' ''A red fox.'' None],
      Inl (Exception ''offline'')) \<and>
   generate_image default_config image_world SessionState_init ''A red fox.'' None =
     (SessionState_init\<lparr>last_image_response_id := Some ''resp_1''\<rparr>,
      [ResponsesCreateImage ''gpt-5.2'' ''A red fox.'' None,
       FileWrite ''server/outputs/0000000000000000000000000000abcd.png'' ''cG5n''],
      Inr ''/outputs/0000000000000000000000000000abcd.png'') \<and>
   map_option (\<lambda>(S, calls, r). map_option last_image_response_id (S ''s1''))
     (handle_message default_config image_world fox_request Map.empty) =
     Some (Some (Some ''resp_1''))"
proof -
  let ?call = "ResponsesCreateImage ''gpt-5.2'' ''A red fox.'' None"
  let ?saved = "FileWrite ''server/outputs/0000000000000000000000000000abcd.png'' ''cG5n''"
  let ?url = "''/outputs/0000000000000000000000000000abcd.png''"
  let ?after = "\<lparr>messages = [\<lparr>role = ''user'', content = ''draw a red fox''\<rparr>,
                   \<lparr>role = ''assistant'',
                    content = ''[image generated] /outputs/0000000000000000000000000000abcd.png''\<rparr>],
                  last_intent = Some Image, last_image_response_id = Some ''resp_1'',
                  last_video_id = None, last_video_completed = False\<rparr>"
  have down: "generate_image default_config offline SessionState_init ''A red fox.'' None =
     (SessionState_init, [?call], Inl (Exception ''offline''))"
    by (simp add: run_defs world_defs SessionState_init_def)
  have up: "generate_image default_config image_world SessionState_init ''A red fox.'' None =
     (SessionState_init\<lparr>last_image_response_id := Some ''resp_1''\<rparr>, [?call, ?saved], Inr ?url)"
    by (simp add: run_defs world_defs SessionState_init_def)
  have res: "get_or_create_session image_world (req_session_id fox_request) Map.empty =
      (''s1'', SessionState_init, [''s1'' \<mapsto> SessionState_init])"
    by (simp add: get_or_create_session_def fox_request_def)
  have turn: "handle_message default_config image_world fox_request Map.empty =
      Some ([''s1'' \<mapsto> ?after],
            [ResponsesParse ''gpt-4o-mini'' (router_input ''draw a red fox'' SessionState_init),
             ?call, ?saved],
            Inr \<lparr>session_id = ''s1'', intent = Image, content_type = ''image'',
                 text_out = None, asset_url = Some ?url,
                 debug = [(''routed_prompt'', Some ''A red fox.''), (''style'', None)]\<rparr>)"
    by (simp add: fox_request_def handler_defs run_defs world_defs)
  note t = image_handle_recorded_on_response [of default_config image_world
      SessionState_init "''A red fox.''" None fox_request Map.empty]
  have changed: "last_image_response_id ?after \<noteq> last_image_response_id SessionState_init"
    by (simp add: SessionState_init_def)
  from t turn res changed
  have "\<exists>input prev resp.
         ResponsesCreateImage (TEXT_MODEL default_config) input prev \<in>
           set [ResponsesParse ''gpt-4o-mini'' (router_input ''draw a red fox'' SessionState_init),
             ?call, ?saved] \<and>
         responses_create_image image_world (TEXT_MODEL default_config) input prev = Inr resp \<and>
         last_image_response_id ?after = Some (resp_id resp)"
    by (auto simp del: set_simps)
  then have "last_image_response_id ?after = Some ''resp_1''"
    by (auto simp: world_defs)
  with down up turn show ?thesis
    by simp
qed

text \<open>
  Against claim C3 as stated: the backend answers with a response that holds no image.
  The turn fails with status 500, and the session that had no handle has one.
\<close>

theorem failed_image_turn_sets_handle:
  "generate_image default_config image_empty_world SessionState_init ''A red fox.'' None =
     (SessionState_init\<lparr>last_image_response_id := Some ''resp_2''\<rparr>,
      [ResponsesCreateImage ''gpt-5.2'' ''A red fox.'' None],
      Inl (HTTPException 500 ''No image generated in response output.'')) \<and>
   last_image_response_id SessionState_init = None"
  by (simp add: run_defs world_defs SessionState_init_def)

text \<open>A dispatch that fails leaves \<open>last_intent\<close> as it was.\<close>

lemma dispatch_failure_keeps_intent:
  assumes "dispatch c w sid session decision = Some (session2, calls2, Inl e)"
  shows "last_intent session2 = last_intent session"
proof (cases decision)
  case None
  with assms show ?thesis by (simp add: dispatch_none)
next
  case (Some d)
  show ?thesis
  proof (cases "rd_intent d")
    case Text
    obtain session1 calls r where
      gen: "generate_text c w session (rd_prompt d) = (session1, calls, r)"
      by (cases "generate_text c w session (rd_prompt d)") auto
    from generate_text_frame [OF gen]
    have "last_intent session1 = last_intent session"
      by auto
    with assms Some Text gen show ?thesis
      by (auto simp: dispatch_text split: sum.splits)
  next
    case Image
    obtain session1 calls r where
      gen: "generate_image c w session (rd_prompt d) (rd_style d) = (session1, calls, r)"
      by (cases "generate_image c w session (rd_prompt d) (rd_style d)") auto
    from generate_image_frame [OF gen]
    have "last_intent session1 = last_intent session"
      by auto
    with assms Some Image gen show ?thesis
      by (auto simp: dispatch_image split: sum.splits)
  next
    case Video
    show ?thesis
    proof (cases "generate_video c w session (rd_prompt d) (rd_seconds d) (rd_size d)")
      case None
      with assms Some Video show ?thesis
        by (simp add: dispatch_video)
    next
      case (Some res)
      then obtain session1 calls r where
        gen: "generate_video c w session (rd_prompt d) (rd_seconds d) (rd_size d)
                = Some (session1, calls, r)"
        by (cases res) auto
      from generate_video_effect [OF gen]
      have "last_intent session1 = last_intent session"
        by auto
      with assms \<open>decision = Some d\<close> Video gen show ?thesis
        by (auto simp: dispatch_video split: sum.splits)
    qed
  qed
qed

text \<open>A turn that fails: rejected or unrouted with the dictionary as resolved, or dispatched.\<close>

lemma handle_message_failed:
  assumes run: "handle_message c w req S = Some (S', calls, Inl e)"
    and res: "get_or_create_session w (req_session_id req) S = (sid, session, S1)"
  shows "(S' = S1 \<and> filter is_image_request calls = []) \<or>
         (\<exists>decision session2 calls2 e2.
            dispatch c w sid
              (session\<lparr>messages := messages session @
                 [\<lparr>role = ''user'', content = strip (req_text req)\<rparr>]\<rparr>) decision
              = Some (session2, calls2, Inl e2) \<and>
            S' = S1(sid \<mapsto> session2) \<and>
            calls = ResponsesParse (ROUTER_MODEL c)
                      (router_input (strip (req_text req)) session) # calls2)"
proof (cases "strip (req_text req) = []")
  case True
  with run show ?thesis
    unfolding handle_message_unfold [OF res] by simp
next
  case False
  note nonempty = this
  show ?thesis
  proof (cases "responses_parse w (ROUTER_MODEL c)
                  (router_input (strip (req_text req)) session)")
    case (Inl e1)
    with run nonempty show ?thesis
      unfolding handle_message_unfold [OF res] by auto
  next
    case (Inr decision)
    with run nonempty obtain session2 calls2 r2 where
      d: "dispatch c w sid
              (session\<lparr>messages := messages session @
                 [\<lparr>role = ''user'', content = strip (req_text req)\<rparr>]\<rparr>) decision
              = Some (session2, calls2, r2)" and
      S': "S' = S1(sid \<mapsto> session2)" and
      calls: "calls = ResponsesParse (ROUTER_MODEL c)
                      (router_input (strip (req_text req)) session) # calls2" and
      r: "Inl e = map_sum reraise id r2"
      unfolding handle_message_unfold [OF res]
      by (auto split: option.splits)
    from r obtain e2 where "r2 = Inl e2"
      by (cases r2) auto
    with d S' calls show ?thesis
      by blast
  qed
qed

text \<open>What a failed turn leaves in its session.\<close>

lemma handle_message_failed_session:
  assumes run: "handle_message c w req S = Some (S', calls, Inl e)"
    and res: "get_or_create_session w (req_session_id req) S = (sid, before, S1)"
  shows "\<exists>after.
           S' sid = Some after \<and> last_intent after = last_intent before \<and>
           (filter is_image_request calls = [] \<longrightarrow>
              last_image_response_id after = last_image_response_id before)"
  using handle_message_failed [OF run res]
proof
  assume "S' = S1 \<and> filter is_image_request calls = []"
  with get_or_create_session_stored [OF res] show ?thesis
    by auto
next
  assume "\<exists>decision session2 calls2 e2.
            dispatch c w sid
              (before\<lparr>messages := messages before @
                 [\<lparr>role = ''user'', content = strip (req_text req)\<rparr>]\<rparr>) decision
              = Some (session2, calls2, Inl e2) \<and>
            S' = S1(sid \<mapsto> session2) \<and>
            calls = ResponsesParse (ROUTER_MODEL c)
                      (router_input (strip (req_text req)) before) # calls2"
  then obtain decision session2 calls2 e2 where
    d: "dispatch c w sid
              (before\<lparr>messages := messages before @
                 [\<lparr>role = ''user'', content = strip (req_text req)\<rparr>]\<rparr>) decision
              = Some (session2, calls2, Inl e2)" and
    S': "S' = S1(sid \<mapsto> session2)" and
    calls: "calls = ResponsesParse (ROUTER_MODEL c)
                      (router_input (strip (req_text req)) before) # calls2"
    by blast
  from dispatch_failure_keeps_intent [OF d]
  have intent: "last_intent session2 = last_intent before"
    by simp
  have handle: "last_image_response_id session2 = last_image_response_id before"
    if quiet: "filter is_image_request calls = []"
  proof (rule ccontr)
    assume "last_image_response_id session2 \<noteq> last_image_response_id before"
    then have "last_image_response_id session2 \<noteq>
        last_image_response_id (before\<lparr>messages := messages before @
                 [\<lparr>role = ''user'', content = strip (req_text req)\<rparr>]\<rparr>)"
      by simp
    from dispatch_image_handle [OF d this] obtain input prev where
      "take 1 calls2 = [ResponsesCreateImage (TEXT_MODEL c) input prev]"
      by blast
    then obtain rest where "calls2 = ResponsesCreateImage (TEXT_MODEL c) input prev # rest"
      by (cases calls2) auto
    with calls quiet show False
      by simp
  qed
  from S' intent handle show ?thesis
    by simp
qed

text \<open>
  Claim C8, as the code has it. The image call carries the session's handle exactly when
  the session's last intent is image and a (non-empty) handle is recorded; otherwise it
  carries none. A turn that answers with text or video sets the last intent to that, so
  the next image call on the session carries no handle. A turn that fails leaves the last
  intent as it was; when it made no image call it leaves the handle as it was too, so
  after a failed text or video turn on a session whose last intent is image the next image
  call still carries the handle.
\<close>

theorem image_request_carries_handle_iff:
  "(\<forall>session' calls r.
      generate_image c w session prompt style = (session', calls, r) \<longrightarrow>
      (last_intent session = Some Image \<and> last_image_response_id session = Some h \<and> h \<noteq> [] \<longrightarrow>
         (\<exists>input. filter is_image_request calls =
                    [ResponsesCreateImage (TEXT_MODEL c) input (Some h)])) \<and>
      (\<not> (last_intent session = Some Image \<and>
           (\<exists>h. last_image_response_id session = Some h \<and> h \<noteq> [])) \<longrightarrow>
         (\<exists>input. filter is_image_request calls =
                    [ResponsesCreateImage (TEXT_MODEL c) input None]))) \<and>
   (\<forall>S' calls r resp.
      handle_message c w req S = Some (S', calls, Inr resp) \<and> intent resp \<noteq> Image \<longrightarrow>
      (\<exists>after.
         S' (session_id resp) = Some after \<and> last_intent after = Some (intent resp) \<and>
         (\<forall>c2 w2 ms prompt2 style2 session2 calls2 r2.
            generate_image c2 w2 (after\<lparr>messages := ms\<rparr>) prompt2 style2 =
              (session2, calls2, r2) \<longrightarrow>
            (\<exists>input. filter is_image_request calls2 =
                       [ResponsesCreateImage (TEXT_MODEL c2) input None])))) \<and>
   (\<forall>S' calls e sid before S1.
      handle_message c w req S = Some (S', calls, Inl e) \<and>
      get_or_create_session w (req_session_id req) S = (sid, before, S1) \<longrightarrow>
      (\<exists>after.
         S' sid = Some after \<and> last_intent after = last_intent before \<and>
         (filter is_image_request calls = [] \<longrightarrow>
            last_image_response_id after = last_image_response_id before \<and>
            (\<forall>h2 c2 w2 ms prompt2 style2 session2 calls2 r2.
               last_intent before = Some Image \<and> last_image_response_id before = Some h2 \<and>
               h2 \<noteq> [] \<and>
               generate_image c2 w2 (after\<lparr>messages := ms\<rparr>) prompt2 style2 =
                 (session2, calls2, r2) \<longrightarrow>
               (\<exists>input. filter is_image_request calls2 =
                          [ResponsesCreateImage (TEXT_MODEL c2) input (Some h2)])))))"
proof -
  have request: "\<exists>input. filter is_image_request calls =
      [ResponsesCreateImage (TEXT_MODEL c) input
         (if last_intent session = Some Image \<and> truthy (last_image_response_id session)
          then last_image_response_id session else None)]"
    if "generate_image c w session prompt style = (session', calls, r)"
    for c w session prompt style session' calls r
    using generate_image_effect [OF that] by auto
  have carried: "\<exists>input. filter is_image_request calls =
                    [ResponsesCreateImage (TEXT_MODEL c) input (Some h)]"
    if "generate_image c w session prompt style = (session', calls, r)"
      "last_intent session = Some Image" "last_image_response_id session = Some h" "h \<noteq> []"
    for c w session prompt style session' calls r h
    using request [OF that(1)] that(2-4) by (simp add: truthy_def)
  have fresh: "\<exists>input. filter is_image_request calls =
                    [ResponsesCreateImage (TEXT_MODEL c) input None]"
    if "generate_image c w session prompt style = (session', calls, r)"
      "\<not> (last_intent session = Some Image \<and>
           (\<exists>h. last_image_response_id session = Some h \<and> h \<noteq> []))"
    for session' calls r
  proof -
    from that(2) have "\<not> (last_intent session = Some Image \<and>
        truthy (last_image_response_id session))"
      by (auto simp: truthy_def split: option.splits)
    with request [OF that(1)] show ?thesis
      by simp
  qed
  have across: "\<exists>after.
         S' (session_id resp) = Some after \<and> last_intent after = Some (intent resp) \<and>
         (\<forall>c2 w2 ms prompt2 style2 session2 calls2 r2.
            generate_image c2 w2 (after\<lparr>messages := ms\<rparr>) prompt2 style2 =
              (session2, calls2, r2) \<longrightarrow>
            (\<exists>input. filter is_image_request calls2 =
                       [ResponsesCreateImage (TEXT_MODEL c2) input None]))"
    if run: "handle_message c w req S = Some (S', calls, Inr resp)"
      and other: "intent resp \<noteq> Image"
    for S' calls r resp
  proof -
    obtain sid before S1 where
      res: "get_or_create_session w (req_session_id req) S = (sid, before, S1)"
      by (cases "get_or_create_session w (req_session_id req) S") auto
    from handle_message_dispatched [OF run res] obtain decision session2 calls2 r2 where
      d: "dispatch c w sid
            (before\<lparr>messages := messages before @
               [\<lparr>role = ''user'', content = strip (req_text req)\<rparr>]\<rparr>) decision
            = Some (session2, calls2, r2)" and
      S': "S' = S1(sid \<mapsto> session2)" and
      r: "Inr resp = map_sum reraise id r2"
      by blast
    from r have "r2 = Inr resp"
      by (cases r2) auto
    with d dispatch_success [of c w sid _ decision session2 calls2 resp]
    have li: "last_intent session2 = Some (intent resp)" and sid: "session_id resp = sid"
      by auto
    have "\<exists>input. filter is_image_request calls3 =
                       [ResponsesCreateImage (TEXT_MODEL c2) input None]"
      if "generate_image c2 w2 (session2\<lparr>messages := ms\<rparr>) prompt2 style2 =
              (session3, calls3, r3)"
      for c2 w2 ms prompt2 style2 session3 calls3 r3
      using request [OF that] li other by simp
    with S' li sid show ?thesis
      by auto
  qed
  have failed: "\<exists>after.
         S' sid = Some after \<and> last_intent after = last_intent before \<and>
         (filter is_image_request calls = [] \<longrightarrow>
            last_image_response_id after = last_image_response_id before \<and>
            (\<forall>h2 c2 w2 ms prompt2 style2 session2 calls2 r2.
               last_intent before = Some Image \<and> last_image_response_id before = Some h2 \<and>
               h2 \<noteq> [] \<and>
               generate_image c2 w2 (after\<lparr>messages := ms\<rparr>) prompt2 style2 =
                 (session2, calls2, r2) \<longrightarrow>
               (\<exists>input. filter is_image_request calls2 =
                          [ResponsesCreateImage (TEXT_MODEL c2) input (Some h2)])))"
    if run: "handle_message c w req S = Some (S', calls, Inl e)"
      and res: "get_or_create_session w (req_session_id req) S = (sid, before, S1)"
    for S' calls e sid before S1
  proof -
    from handle_message_failed_session [OF run res] obtain after where
      at: "S' sid = Some after" and
      intent: "last_intent after = last_intent before" and
      handle: "filter is_image_request calls = [] \<longrightarrow>
                 last_image_response_id after = last_image_response_id before"
      by blast
    have "\<exists>input. filter is_image_request calls2 =
                          [ResponsesCreateImage (TEXT_MODEL c2) input (Some h2)]"
      if "filter is_image_request calls = []"
        "last_intent before = Some Image" "last_image_response_id before = Some h2" "h2 \<noteq> []"
        "generate_image c2 w2 (after\<lparr>messages := ms\<rparr>) prompt2 style2 = (session2, calls2, r2)"
      for h2 c2 w2 ms prompt2 style2 session2 calls2 r2
    proof (rule carried [OF that(5)])
      show "last_intent (after\<lparr>messages := ms\<rparr>) = Some Image"
        using intent that(2) by simp
      show "last_image_response_id (after\<lparr>messages := ms\<rparr>) = Some h2"
        using handle that(1,3) by simp
      show "h2 \<noteq> []"
        by (rule that(4))
    qed
    with at intent handle show ?thesis
      by blast
  qed
  have A: "\<forall>session' calls r.
      generate_image c w session prompt style = (session', calls, r) \<longrightarrow>
      (last_intent session = Some Image \<and> last_image_response_id session = Some h \<and> h \<noteq> [] \<longrightarrow>
         (\<exists>input. filter is_image_request calls =
                    [ResponsesCreateImage (TEXT_MODEL c) input (Some h)])) \<and>
      (\<not> (last_intent session = Some Image \<and>
           (\<exists>h. last_image_response_id session = Some h \<and> h \<noteq> [])) \<longrightarrow>
         (\<exists>input. filter is_image_request calls =
                    [ResponsesCreateImage (TEXT_MODEL c) input None]))"
    using carried [of c w session prompt style _ _ _ h] fresh by blast
  have B: "\<forall>S' calls r resp.
      handle_message c w req S = Some (S', calls, Inr resp) \<and> intent resp \<noteq> Image \<longrightarrow>
      (\<exists>after.
         S' (session_id resp) = Some after \<and> last_intent after = Some (intent resp) \<and>
         (\<forall>c2 w2 ms prompt2 style2 session2 calls2 r2.
            generate_image c2 w2 (after\<lparr>messages := ms\<rparr>) prompt2 style2 =
              (session2, calls2, r2) \<longrightarrow>
            (\<exists>input. filter is_image_request calls2 =
                       [ResponsesCreateImage (TEXT_MODEL c2) input None])))"
    using across by blast
  have C: "\<forall>S' calls e sid before S1.
      handle_message c w req S = Some (S', calls, Inl e) \<and>
      get_or_create_session w (req_session_id req) S = (sid, before, S1) \<longrightarrow>
      (\<exists>after.
         S' sid = Some after \<and> last_intent after = last_intent before \<and>
         (filter is_image_request calls = [] \<longrightarrow>
            last_image_response_id after = last_image_response_id before \<and>
            (\<forall>h2 c2 w2 ms prompt2 style2 session2 calls2 r2.
               last_intent before = Some Image \<and> last_image_response_id before = Some h2 \<and>
               h2 \<noteq> [] \<and>
               generate_image c2 w2 (after\<lparr>messages := ms\<rparr>) prompt2 style2 =
                 (session2, calls2, r2) \<longrightarrow>
               (\<exists>input. filter is_image_request calls2 =
                          [ResponsesCreateImage (TEXT_MODEL c2) input (Some h2)]))))"
  proof (intro allI impI)
    fix S' calls e sid before S1
    assume "handle_message c w req S = Some (S', calls, Inl e) \<and>
      get_or_create_session w (req_session_id req) S = (sid, before, S1)"
    then show "\<exists>after.
         S' sid = Some after \<and> last_intent after = last_intent before \<and>
         (filter is_image_request calls = [] \<longrightarrow>
            last_image_response_id after = last_image_response_id before \<and>
            (\<forall>h2 c2 w2 ms prompt2 style2 session2 calls2 r2.
               last_intent before = Some Image \<and> last_image_response_id before = Some h2 \<and>
               h2 \<noteq> [] \<and>
               generate_image c2 w2 (after\<lparr>messages := ms\<rparr>) prompt2 style2 =
                 (session2, calls2, r2) \<longrightarrow>
               (\<exists>input. filter is_image_request calls2 =
                          [ResponsesCreateImage (TEXT_MODEL c2) input (Some h2)])))"
      using failed [of S' calls e sid before S1] by simp
  qed
  from A B C show ?thesis
    by (intro conjI)
qed

text \<open>
  A session whose last intent is image sends its handle; after a successful text turn on
  that session the next image call sends none; after a text turn whose backend call
  raises, the next image call sends the handle.
\<close>

theorem image_request_carries_handle_iff_witness:
  "fst (snd (generate_image default_config image_world image_session ''Brighter.'' None)) =
     [ResponsesCreateImage ''gpt-5.2'' ''Brighter.'' (Some ''resp_1''),
      FileWrite ''server/outputs/0000000000000000000000000000abcd.png'' ''cG5n''] \<and>
   fst (snd (generate_image default_config image_world SessionState_init ''A red fox.'' None)) =
     [ResponsesCreateImage ''gpt-5.2'' ''A red fox.'' None,
      FileWrite ''server/outputs/0000000000000000000000000000abcd.png'' ''cG5n''] \<and>
   map_option (\<lambda>(S, calls, r). map_option
       (\<lambda>after. (last_intent after, last_image_response_id after,
          fst (snd (generate_image default_config image_world after ''Brighter.'' None))))
       (S ''s1''))
     (handle_message default_config text_world hi_request [''s1'' \<mapsto> image_session]) =
     Some (Some (Some Text, Some ''resp_1'',
                 [ResponsesCreateImage ''gpt-5.2'' ''Brighter.'' None,
                  FileWrite ''server/outputs/0000000000000000000000000000abcd.png'' ''cG5n''])) \<and>
   map_option (\<lambda>(S, calls, r). (r, map_option
       (\<lambda>after. (last_intent after, last_image_response_id after,
          fst (snd (generate_image default_config image_world after ''Brighter.'' None))))
       (S ''s1'')))
     (handle_message default_config text_down_world hi_request [''s1'' \<mapsto> image_session]) =
     Some (Inl (HTTPException 500 ''offline''),
           Some (Some Image, Some ''resp_1'',
                 [ResponsesCreateImage ''gpt-5.2'' ''Brighter.'' (Some ''resp_1''),
                  FileWrite ''server/outputs/0000000000000000000000000000abcd.png'' ''cG5n'']))"
proof -
  let ?saved = "FileWrite ''server/outputs/0000000000000000000000000000abcd.png'' ''cG5n''"
  let ?url = "''/outputs/0000000000000000000000000000abcd.png''"
  let ?after = "\<lparr>messages = [\<lparr>role = ''user'', content = ''say hi''\<rparr>,
                   \<lparr>role = ''user'', content = ''Write a haiku about rain.''\<rparr>,
                   \<lparr>role = ''assistant'', content = ''Rain taps the window''\<rparr>],
                  last_intent = Some Text, last_image_response_id = Some ''resp_1'',
                  last_video_id = None, last_video_completed = False\<rparr>"
  let ?resp = "\<lparr>session_id = ''s1'', intent = Text, content_type = ''text'',
                text_out = Some ''Rain taps the window'', asset_url = None,
                debug = [(''routed_prompt'', Some ''Write a haiku about rain.'')]\<rparr>"
  have g1: "generate_image default_config image_world image_session ''Brighter.'' None =
      (image_session, [ResponsesCreateImage ''gpt-5.2'' ''Brighter.'' (Some ''resp_1''), ?saved],
       Inr ?url)"
    by (simp add: run_defs world_defs image_session_def SessionState_init_def)
  have g2: "generate_image default_config image_world SessionState_init ''A red fox.'' None =
      (SessionState_init\<lparr>last_image_response_id := Some ''resp_1''\<rparr>,
       [ResponsesCreateImage ''gpt-5.2'' ''A red fox.'' None, ?saved], Inr ?url)"
    by (simp add: run_defs world_defs SessionState_init_def)
  have g3: "generate_image default_config image_world ?after ''Brighter.'' None =
      (?after, [ResponsesCreateImage ''gpt-5.2'' ''Brighter.'' None, ?saved], Inr ?url)"
    by (simp add: run_defs world_defs)
  have turn: "handle_message default_config text_world hi_request [''s1'' \<mapsto> image_session] =
      Some ([''s1'' \<mapsto> ?after],
            [ResponsesParse ''gpt-4o-mini'' (router_input ''say hi'' image_session),
             ResponsesCreate ''gpt-5.2'' (take 2 (messages ?after))],
            Inr ?resp)"
    by (simp add: hi_request_def handler_defs run_defs world_defs image_session_def)
  have cond: "last_intent image_session = Some Image \<and>
      last_image_response_id image_session = Some ''resp_1'' \<and> ''resp_1'' \<noteq> []"
    by (simp add: image_session_def SessionState_init_def)
  note carried = image_request_carries_handle_iff [where c = default_config
      and w = image_world and session = image_session and prompt = "''Brighter.''"
      and style = None and h = "''resp_1''" and req = hi_request and S = Map.empty]
  from carried [THEN conjunct1, rule_format, OF g1, THEN conjunct1, rule_format, OF cond]
  have a: "\<exists>input. filter is_image_request
      [ResponsesCreateImage ''gpt-5.2'' ''Brighter.'' (Some ''resp_1''), ?saved] =
      [ResponsesCreateImage (TEXT_MODEL default_config) input (Some ''resp_1'')]"
    by simp
  note across = image_request_carries_handle_iff [where c = default_config
      and w = text_world and session = image_session and prompt = "''Brighter.''"
      and style = None and h = "''resp_1''" and req = hi_request
      and S = "[''s1'' \<mapsto> image_session]"]
  have other: "intent ?resp \<noteq> Image"
    by simp
  from across [THEN conjunct2, THEN conjunct1, rule_format, OF conjI [OF turn other]]
  obtain after where
    "[''s1'' \<mapsto> ?after] (session_id ?resp) = Some after"
    "last_intent after = Some (intent ?resp)"
    by blast
  then have b: "last_intent ?after = Some Text"
    by simp
  let ?kept = "\<lparr>messages = [\<lparr>role = ''user'', content = ''say hi''\<rparr>,
                   \<lparr>role = ''user'', content = ''Write a haiku about rain.''\<rparr>],
                  last_intent = Some Image, last_image_response_id = Some ''resp_1'',
                  last_video_id = None, last_video_completed = False\<rparr>"
  let ?failed_calls = "[ResponsesParse ''gpt-4o-mini'' (router_input ''say hi'' image_session),
             ResponsesCreate ''gpt-5.2'' (messages ?kept)]"
  have down: "handle_message default_config text_down_world hi_request
      [''s1'' \<mapsto> image_session] =
      Some ([''s1'' \<mapsto> ?kept], ?failed_calls, Inl (HTTPException 500 ''offline''))"
    by (simp add: hi_request_def handler_defs run_defs world_defs image_session_def)
  have res: "get_or_create_session text_down_world (req_session_id hi_request)
      [''s1'' \<mapsto> image_session] = (''s1'', image_session, [''s1'' \<mapsto> image_session])"
    by (simp add: get_or_create_session_def hi_request_def)
  have quiet: "filter is_image_request ?failed_calls = []"
    by simp
  have g4: "generate_image default_config image_world ?kept ''Brighter.'' None =
      (?kept, [ResponsesCreateImage ''gpt-5.2'' ''Brighter.'' (Some ''resp_1''), ?saved],
       Inr ?url)"
    by (simp add: run_defs world_defs)
  note failing = image_request_carries_handle_iff [where c = default_config
      and w = text_down_world and session = image_session and prompt = "''Brighter.''"
      and style = None and h = "''resp_1''" and req = hi_request
      and S = "[''s1'' \<mapsto> image_session]"]
  from failing [THEN conjunct2, THEN conjunct2, rule_format, OF conjI [OF down res]]
  obtain kept where
    "[''s1'' \<mapsto> ?kept] ''s1'' = Some kept"
    "last_intent kept = last_intent image_session"
    "filter is_image_request ?failed_calls = [] \<longrightarrow>
       last_image_response_id kept = last_image_response_id image_session"
    by blast
  with quiet have c: "last_intent ?kept = last_intent image_session \<and>
      last_image_response_id ?kept = last_image_response_id image_session"
    by simp
  from a b c g1 g2 g3 g4 turn down show ?thesis
    by simp
qed

text \<open>
  Against claim C8 as stated: an image turn, then a turn routed to text whose backend
  call raises, then an image turn. The failed turn leaves the last intent at image, and
  the third turn's image call carries the handle of the first across it. Shown per turn:
  the calls other than the routing call, and the intent answered or the exception.
\<close>

theorem failed_text_turn_keeps_image_handle:
  "map_option (\<lambda>(S, outs).
       map (\<lambda>(calls, r). (filter (\<lambda>x. \<not> is_router_call x) calls, map_sum id intent r)) outs)
     (run_turns default_config
        [(image_world, fox_request), (text_down_world, hi_request),
         (image_world, brighter_request)] Map.empty) =
   Some [([ResponsesCreateImage ''gpt-5.2'' ''A red fox.'' None,
           FileWrite ''server/outputs/0000000000000000000000000000abcd.png'' ''cG5n''],
          Inr Image),
         ([ResponsesCreate ''gpt-5.2''
             [\<lparr>role = ''user'', content = ''draw a red fox''\<rparr>,
              \<lparr>role = ''assistant'',
               content = ''[image generated] /outputs/0000000000000000000000000000abcd.png''\<rparr>,
              \<lparr>role = ''user'', content = ''say hi''\<rparr>,
              \<lparr>role = ''user'', content = ''Write a haiku about rain.''\<rparr>]],
          Inl (HTTPException 500 ''offline'')),
         ([ResponsesCreateImage ''gpt-5.2'' ''A red fox.'' (Some ''resp_1''),
           FileWrite ''server/outputs/0000000000000000000000000000abcd.png'' ''cG5n''],
          Inr Image)]"
  by (simp add: fox_request_def hi_request_def brighter_request_def handler_defs run_defs
        world_defs)


end
